theory Spec2Isabelle
  imports Main "HOL-Library.AList"
begin

section \<open>Strings as JavaScript uses them\<close>

text \<open>
  A string is a list of code units, one \<^typ>\<open>char\<close> each: the code units below 256, that is
  ASCII and the Latin-1 supplement.  Within that range \<open>toLowerCase\<close>, \<open>trim\<close> and the
  character classes of the regular expressions are the ones of JavaScript; text with code
  units from 256 on is not covered.
\<close>

definition is_upper :: "char \<Rightarrow> bool" where
  "is_upper c = (let n = (of_char c :: nat) in 65 \<le> n \<and> n \<le> 90)"

definition is_lower :: "char \<Rightarrow> bool" where
  "is_lower c = (let n = (of_char c :: nat) in 97 \<le> n \<and> n \<le> 122)"

definition is_digit :: "char \<Rightarrow> bool" where
  "is_digit c = (let n = (of_char c :: nat) in 48 \<le> n \<and> n \<le> 57)"

definition is_space :: "char \<Rightarrow> bool" where
  \<comment> \<open>the class \<open>\s\<close> and the white space of \<open>trim\<close>: tab, line feed, vertical tab, form
     feed, carriage return, space, and the no-break space U+00A0\<close>
  "is_space c = (let n = (of_char c :: nat) in n = 32 \<or> (9 \<le> n \<and> n \<le> 13) \<or> n = 160)"

definition toLowerCase_char :: "char \<Rightarrow> char" where
  \<comment> \<open>\<open>A\<close> to \<open>Z\<close>, and the capital letters U+00C0 to U+00DE of Latin-1 (U+00D7, the
     multiplication sign, is no letter), move up by 32\<close>
  "toLowerCase_char c =
     (let n = (of_char c :: nat)
      in if is_upper c \<or> (192 \<le> n \<and> n \<le> 222 \<and> n \<noteq> 215) then char_of (n + 32) else c)"

definition toLowerCase :: "string \<Rightarrow> string" where
  "toLowerCase s = map toLowerCase_char s"

definition trim :: "string \<Rightarrow> string" where
  "trim s = rev (dropWhile is_space (rev (dropWhile is_space s)))"

text \<open>
  \<open>s.replace(/[C]+/g, "-")\<close> for a character class \<open>C\<close>: every maximal run of characters
  of the class becomes one hyphen.
\<close>

function replace_runs :: "(char \<Rightarrow> bool) \<Rightarrow> string \<Rightarrow> string" where
  "replace_runs p [] = []"
| "replace_runs p (c # cs) =
     (if p c then CHR ''-'' # replace_runs p (dropWhile p cs) else c # replace_runs p cs)"
  by pat_completeness auto
termination
  by (relation "measure (\<lambda>(p, s). length s)")
     (auto simp: length_dropWhile_le less_Suc_eq_le)

text \<open>
  \<open>s.replace(/^-|-$/g, "")\<close>: one hyphen at the very start and one hyphen at the very end
  are removed (a lone \<open>"-"\<close> is matched once, by the first alternative).
\<close>

definition strip_edge_hyphens :: "string \<Rightarrow> string" where
  "strip_edge_hyphens s =
     (let s1 = (case s of [] \<Rightarrow> [] | c # cs \<Rightarrow> if c = CHR ''-'' then cs else s)
      in if s1 \<noteq> [] \<and> last s1 = CHR ''-'' then butlast s1 else s1)"

definition slug_char :: "char \<Rightarrow> bool" where
  \<comment> \<open>the class \<open>[a-z0-9]\<close>\<close>
  "slug_char c = (is_lower c \<or> is_digit c)"

definition slugify :: "string \<Rightarrow> string" where
  "slugify name =
     take 30 (strip_edge_hyphens (replace_runs (\<lambda>c. \<not> slug_char c) (toLowerCase name)))"


section \<open>JSON values\<close>

text \<open>
  The health payload is whatever JSON the instance answers; the resolver only tests
  truthiness and reads properties of it.
\<close>

datatype jsval =
    JNull
  | JBool bool
  | JNum int
  | JStr string
  | JArr "jsval list"
  | JObj "(string \<times> jsval) list"

fun truthy :: "jsval \<Rightarrow> bool" where
  "truthy JNull = False"
| "truthy (JBool b) = b"
| "truthy (JNum n) = (n \<noteq> 0)"
| "truthy (JStr s) = (s \<noteq> [])"
| "truthy (JArr xs) = True"
| "truthy (JObj kvs) = True"

fun get_prop :: "jsval \<Rightarrow> string \<Rightarrow> jsval option" where
  \<comment> \<open>\<open>v.k\<close> for a non-null \<open>v\<close>; \<open>None\<close> is \<open>undefined\<close> (properties of primitives and
     arrays that a JSON document can carry are not object keys)\<close>
  "get_prop (JObj kvs) k = map_of kvs k"
| "get_prop v k = None"

definition truthy_opt :: "jsval option \<Rightarrow> bool" where
  "truthy_opt v = (case v of None \<Rightarrow> False | Some x \<Rightarrow> truthy x)"

section \<open>The registry document\<close>

record railway_refs =
  projectId :: string
  serviceId :: string
  environmentId :: string
  volumeId :: string

record inst_config =
  setupPassword :: string
  gatewayToken :: string

record "instance" =
  i_id :: string
  i_name :: string
  i_createdAt :: string
  i_railway :: railway_refs
  i_config :: inst_config
  i_tailscale :: "string option"  \<comment> \<open>\<open>{hostname}\<close> or \<open>null\<close>\<close>
  i_notes :: string

record tenant =
  t_id :: string
  t_name :: string
  t_slug :: string
  t_createdAt :: string
  t_notes :: string
  t_tailscale :: "unit option"  \<comment> \<open>always \<open>null\<close> in this version\<close>
  t_instances :: "(string \<times> instance) list"

text \<open>
  A JavaScript object used as a dictionary is an association list in insertion order:
  \<open>o[k]\<close> is \<^const>\<open>map_of\<close>, \<open>o[k] = v\<close> is \<^const>\<open>AList.update\<close> (in place for a key
  that exists, appended otherwise), \<open>delete o[k]\<close> is \<^const>\<open>AList.delete\<close>, and
  \<open>Object.values\<close> is \<open>map snd\<close>.

  The document on disk: \<open>version\<close> may be missing, version 1 keeps a flat top-level
  \<open>instances\<close> object, version 2 keeps \<open>tenants\<close>.  A document without a \<open>tenants\<close>
  object is read as one with no tenant.
\<close>

record fleet_doc =
  version :: "int option"
  tenants :: "(string \<times> tenant) list"
  instances :: "(string \<times> instance) list option"

section \<open>Status snapshots\<close>

record deployment =
  d_id :: "string option"
  d_status :: string
  d_createdAt :: "string option"
  d_error :: "string option"

record status_data =
  sd_deployment :: "deployment option"
  sd_domain :: "string option"
  sd_health :: jsval
  sd_status :: string

record cache_entry =
  data :: status_data
  fetchedAt :: int

section \<open>The remote collaborators\<close>

text \<open>
  The operations of railway-api.js with the variables the handlers send: project name or
  id; project id, service name and repository; project, service and environment id with
  the mount path; project, environment and service id with the variables and the
  \<open>replace\<close> flag; service id and environment id.
\<close>

datatype gql_op =
    PROJECT_CREATE string
  | PROJECT_QUERY string
  | PROJECT_DELETE string
  | SERVICE_CREATE string string string
  | VOLUME_CREATE string string string string
  | VARIABLE_COLLECTION_UPSERT string string string "(string \<times> string) list" bool
  | SERVICE_INSTANCE_DEPLOY string string
  | SERVICE_INSTANCE_REDEPLOY string string
  | DEPLOYMENTS_QUERY string string
  | SERVICE_DOMAIN_CREATE string string

record svc_instance =
  serviceDomains :: "string list"
  customDomains :: "string list"

record svc_node =
  svc_id :: string
  serviceInstances :: "svc_instance list"

text \<open>
  The \<open>data\<close> of an answer, as far as a handler reads it: the new project's id with its
  environments (id and name), a new service's or volume's id, the deployment edges (id,
  status, creation time), the services of a project, the domain of a new service domain.
  \<open>NoData\<close> is an answer that has none of the members read.
\<close>

datatype gql_data =
    ProjectCreateData string "(string \<times> string) list"
  | ServiceCreateData string
  | VolumeCreateData string
  | DeploymentsData "(string \<times> string \<times> string) list"
  | ProjectData "svc_node list"
  | DomainCreateData "string option"
  | NoData

text \<open>
  The health probe \<open>GET https://domain/healthz\<close>: \<open>fetch\<close> or \<open>json()\<close> throws (also on the
  five-second timeout), the answer is not \<open>ok\<close>, or it is \<open>ok\<close> with a JSON body.
\<close>

datatype probe_result = FetchThrew | NotOk | OkJson jsval

text \<open>Every call that leaves the process is recorded, in the order of the calls.\<close>

datatype remote_call =
    Gql gql_op
  | HealthProbe string
  | TailscaleToken
  | TailscaleKey string string

text \<open>
  The control plane as the handlers see it: \<open>cp op\<close> is what \<open>railwayGql\<close> ends with for
  the operation, \<open>Inr\<close> the \<open>data\<close> of the answer and \<open>Inl\<close> the text \<open>String(err)\<close> of the
  error it throws.
\<close>

type_synonym control_plane = "gql_op \<Rightarrow> string + gql_data"

record mesh =
  isTailscaleConfigured :: bool
  getTailscaleToken :: "string + string"
  createAuthKey :: "string \<Rightarrow> string \<Rightarrow> string + string"

text \<open>What the process draws from its environment during one request.\<close>

record env =
  store_randomUUID :: string  \<comment> \<open>\<open>crypto.randomUUID()\<close> as store.js draws it\<close>
  randomUUID :: string  \<comment> \<open>\<open>crypto.randomUUID()\<close> as server.js draws it\<close>
  nowISO :: string
  randomHex16 :: string
  randomHex32 :: string

section \<open>The world a request runs in\<close>

text \<open>
  The disk maps a path to a file, whose text either parses to a registry document or does
  not; \<open>JSON.stringify\<close> followed by \<open>JSON.parse\<close> gives the document back.  A file
  operation throws when its source is missing or cannot be read, and succeeds otherwise
  (a disk that refuses writes comes with the store, in a subsection of its own).
  Beside the disk the world holds the status cache of the process and three traces: the
  file operations that changed the disk, the remote calls, and the console lines.
\<close>

datatype fcontent = Unparsable string | Json fleet_doc

record fnode =
  readable :: bool
  content :: fcontent

datatype fs_op = CopyFile string string | WriteFile string | RenameFile string string

record world =
  files :: "string \<rightharpoonup> fnode"
  fs_ops :: "fs_op list"
  statusCache :: "string \<rightharpoonup> cache_entry"
  calls :: "remote_call list"
  console :: "string list"

definition console_log :: "string \<Rightarrow> world \<Rightarrow> world" where
  "console_log line w = w\<lparr>console := console w @ [line]\<rparr>"

subsection \<open>File operations\<close>

definition readFileSync :: "string \<Rightarrow> world \<Rightarrow> fcontent option" where
  \<comment> \<open>\<open>None\<close>: the call throws (no such file, or the file cannot be read)\<close>
  "readFileSync path w =
     (case files w path of
        None \<Rightarrow> None
      | Some n \<Rightarrow> if readable n then Some (content n) else None)"

definition existsSync :: "string \<Rightarrow> world \<Rightarrow> bool" where
  "existsSync path w = (files w path \<noteq> None)"

definition copyFileSync :: "string \<Rightarrow> string \<Rightarrow> world \<Rightarrow> world option" where
  \<comment> \<open>\<open>None\<close>: the call throws\<close>
  "copyFileSync src dst w =
     (case readFileSync src w of
        None \<Rightarrow> None
      | Some c \<Rightarrow>
          Some (w\<lparr>files := (files w)(dst \<mapsto> \<lparr>readable = True, content = c\<rparr>),
                  fs_ops := fs_ops w @ [CopyFile src dst]\<rparr>))"

definition writeFileSync :: "string \<Rightarrow> fcontent \<Rightarrow> world \<Rightarrow> world" where
  "writeFileSync path c w =
     w\<lparr>files := (files w)(path \<mapsto> \<lparr>readable = True, content = c\<rparr>),
       fs_ops := fs_ops w @ [WriteFile path]\<rparr>"

definition renameSync :: "string \<Rightarrow> string \<Rightarrow> world \<Rightarrow> world" where
  \<comment> \<open>only ever called on the temporary file that has just been written\<close>
  "renameSync src dst w =
     (case files w src of
        None \<Rightarrow> w
      | Some n \<Rightarrow>
          w\<lparr>files := ((files w)(dst \<mapsto> n))(src := None),
            fs_ops := fs_ops w @ [RenameFile src dst]\<rparr>)"

section \<open>The store (store.js)\<close>

definition DATA_DIR :: string where
  \<comment> \<open>\<open>process.env.DATA_DIR || "/data"\<close>, at its default\<close>
  "DATA_DIR = ''/data''"

definition STORE_PATH :: string where
  "STORE_PATH = DATA_DIR @ ''/fleet.json''"

definition premigrate_bakPath :: string where
  "premigrate_bakPath = DATA_DIR @ ''/fleet.bak-premigrate.json''"

definition timestamp_bakPath :: "string \<Rightarrow> string" where
  \<comment> \<open>\<open>ts = new Date().toISOString().replace(/[:.]/g, "-")\<close>\<close>
  "timestamp_bakPath now =
     DATA_DIR @ ''/fleet.bak-''
       @ map (\<lambda>c. if c = CHR '':'' \<or> c = CHR ''.'' then CHR ''-'' else c) now
       @ ''.json''"

definition tmpPath :: string where
  "tmpPath = STORE_PATH @ ''.tmp''"

definition emptyStore :: "env \<Rightarrow> fleet_doc" where
  "emptyStore e =
     \<lparr>version = Some 2,
      tenants =
        [(store_randomUUID e,
          \<lparr>t_id = store_randomUUID e, t_name = ''Default'', t_slug = ''default'',
           t_createdAt = nowISO e, t_notes = [], t_tailscale = None, t_instances = []\<rparr>)],
      instances = None\<rparr>"

definition migrateV1toV2 :: "env \<Rightarrow> fleet_doc \<Rightarrow> fleet_doc" where
  "migrateV1toV2 e d =
     (if (case version d of None \<Rightarrow> False | Some v \<Rightarrow> v \<ge> 2) then d
      else
        \<lparr>version = Some 2,
         tenants =
           [(store_randomUUID e,
             \<lparr>t_id = store_randomUUID e, t_name = ''Default'', t_slug = ''default'',
              t_createdAt = nowISO e,
              t_notes = ''Auto-created during migration from v1. Contains pre-existing instances.'',
              t_tailscale = None,
              t_instances = (case instances d of None \<Rightarrow> [] | Some m \<Rightarrow> m)\<rparr>)],
         instances = None\<rparr>)"

definition save :: "env \<Rightarrow> fleet_doc \<Rightarrow> world \<Rightarrow> world" where
  "save e d w =
     (let w1 =
            (if existsSync STORE_PATH w then
               (case copyFileSync STORE_PATH (timestamp_bakPath (nowISO e)) w of
                  None \<Rightarrow> w
                | Some w' \<Rightarrow> w')
             else w);
          w2 = writeFileSync tmpPath (Json d) w1
      in renameSync tmpPath STORE_PATH w2)"

definition needs_migration :: "fleet_doc \<Rightarrow> bool" where
  \<comment> \<open>\<open>!data.version || data.version < 2\<close>\<close>
  "needs_migration d = (case version d of None \<Rightarrow> True | Some v \<Rightarrow> v = 0 \<or> v < 2)"

definition load :: "env \<Rightarrow> world \<Rightarrow> fleet_doc \<times> world" where
  "load e w =
     (case readFileSync STORE_PATH w of
        Some (Json d) \<Rightarrow>
          if needs_migration d then
            (let w1 =
                   (case copyFileSync STORE_PATH premigrate_bakPath w of
                      None \<Rightarrow> w
                    | Some w' \<Rightarrow>
                        console_log (''[store] Pre-migration backup: '' @ premigrate_bakPath) w');
                 w2 = console_log ''[store] Migrating fleet data from v1 to v2...'' w1;
                 d' = migrateV1toV2 e d;
                 w3 = save e d' w2
             in (d', console_log ''[store] Migration complete.'' w3))
          else (d, w)
      | _ \<Rightarrow>
          (let d = emptyStore e;
               w1 = save e d w
           in (d, console_log ''[store] Initialized new fleet store with Default tenant.'' w1)))"

subsection \<open>The store on a disk that refuses writes\<close>

text \<open>
  \<open>save\<close> and \<open>load\<close> above are the two functions on a disk that takes every write, which
  is the disk the request handlers below are read on.  A directory creation, a write and a
  rename can also throw (no permission, no space left); none of the three is guarded in
  \<open>save\<close>, so \<open>save\<close> throws with them, and \<open>load\<close> throws when the \<open>save\<close> of its \<open>catch\<close>
  clause does.  \<open>refuses\<close> tells the paths the disk does not let the process write;
  \<open>save_on refuses\<close> and \<open>load_on refuses\<close> are the two functions on such a disk: \<open>Some err\<close>
  and \<open>Inl err\<close> are the error thrown, and the world is the one left behind.  A \<open>save\<close>
  that throws inside the \<open>try\<close> block of \<open>load\<close> is caught by its \<open>catch\<close> clause like any
  other error there.
\<close>

definition write_error :: "string \<Rightarrow> string" where
  "write_error path = ''Error: EACCES: permission denied, '' @ path"

definition copyFileSync_on :: "(string \<Rightarrow> bool) \<Rightarrow> string \<Rightarrow> string \<Rightarrow> world \<Rightarrow> world option" where
  \<comment> \<open>\<open>None\<close>: the call throws\<close>
  "copyFileSync_on refuses src dst w = (if refuses dst then None else copyFileSync src dst w)"

definition save_on :: "(string \<Rightarrow> bool) \<Rightarrow> env \<Rightarrow> fleet_doc \<Rightarrow> world \<Rightarrow> string option \<times> world" where
  "save_on refuses e d w =
     (if refuses DATA_DIR then (Some (write_error DATA_DIR), w)
      else
        (let w1 =
               (if existsSync STORE_PATH w then
                  (case copyFileSync_on refuses STORE_PATH (timestamp_bakPath (nowISO e)) w of
                     None \<Rightarrow> w
                   | Some w' \<Rightarrow> w')
                else w)
         in if refuses tmpPath then (Some (write_error tmpPath), w1)
            else
              (let w2 = writeFileSync tmpPath (Json d) w1
               in if refuses STORE_PATH then (Some (write_error STORE_PATH), w2)
                  else (None, renameSync tmpPath STORE_PATH w2))))"

definition load_on :: "(string \<Rightarrow> bool) \<Rightarrow> env \<Rightarrow> world \<Rightarrow> (string + fleet_doc) \<times> world" where
  "load_on refuses e w =
     (let (tried, w1) =
            (case readFileSync STORE_PATH w of
               Some (Json d) \<Rightarrow>
                 if needs_migration d then
                   (let wa =
                          (case copyFileSync_on refuses STORE_PATH premigrate_bakPath w of
                             None \<Rightarrow> w
                           | Some w' \<Rightarrow>
                               console_log
                                 (''[store] Pre-migration backup: '' @ premigrate_bakPath) w');
                        wb = console_log ''[store] Migrating fleet data from v1 to v2...'' wa;
                        d' = migrateV1toV2 e d;
                        (thrown, wc) = save_on refuses e d' wb
                    in case thrown of
                         Some err \<Rightarrow> (None, wc)
                       | None \<Rightarrow> (Some d', console_log ''[store] Migration complete.'' wc))
                 else (Some d, w)
             | _ \<Rightarrow> (None, w))
      in case tried of
           Some d \<Rightarrow> (Inr d, w1)
         | None \<Rightarrow>
             (let d = emptyStore e;
                  (thrown, w2) = save_on refuses e d w1
              in case thrown of
                   Some err \<Rightarrow> (Inl err, w2)
                 | None \<Rightarrow>
                     (Inr d,
                      console_log
                        ''[store] Initialized new fleet store with Default tenant.'' w2)))"

subsection \<open>Tenants\<close>

text \<open>
  \<open>data.tenants[id]\<close> and \<open>tenant.instances[id]\<close> are read as look-ups among the keys the
  document holds (\<^const>\<open>map_of\<close>).  The identifiers the registry files its entries under are
  the ones \<open>crypto.randomUUID\<close> drew; a request that names a member every JavaScript object
  inherits (\<open>constructor\<close>, \<open>toString\<close>, ...) as an identifier is answered by that member in
  the program and is not covered here.
\<close>

record tenant_summary =
  ts_id :: string
  ts_name :: string
  ts_slug :: string
  ts_createdAt :: string
  ts_notes :: string
  ts_tailscale :: "unit option"
  ts_instanceCount :: nat

definition getAllTenants :: "env \<Rightarrow> world \<Rightarrow> tenant_summary list \<times> world" where
  "getAllTenants e w =
     (let (d, w1) = load e w
      in (map (\<lambda>t. \<lparr>ts_id = t_id t, ts_name = t_name t, ts_slug = t_slug t,
                      ts_createdAt = t_createdAt t, ts_notes = t_notes t,
                      ts_tailscale = t_tailscale t,
                      ts_instanceCount = length (t_instances t)\<rparr>)
            (map snd (tenants d)), w1))"

definition getTenant :: "env \<Rightarrow> string \<Rightarrow> world \<Rightarrow> tenant option \<times> world" where
  "getTenant e tenantId w =
     (let (d, w1) = load e w in (map_of (tenants d) tenantId, w1))"

definition addTenant :: "env \<Rightarrow> tenant \<Rightarrow> world \<Rightarrow> tenant \<times> world" where
  "addTenant e t w =
     (let (d, w1) = load e w;
          d' = d\<lparr>tenants := AList.update (t_id t) t (tenants d)\<rparr>
      in (t, save e d' w1))"

record tenant_patch =
  p_name :: "string option"
  p_slug :: "string option"
  p_notes :: "string option"

definition assign_patch :: "tenant \<Rightarrow> tenant_patch \<Rightarrow> tenant" where
  \<comment> \<open>\<open>Object.assign(tenant, safePatch)\<close>: the fields the patch carries overwrite\<close>
  "assign_patch t p =
     t\<lparr>t_name := (case p_name p of None \<Rightarrow> t_name t | Some n \<Rightarrow> n),
       t_slug := (case p_slug p of None \<Rightarrow> t_slug t | Some s \<Rightarrow> s),
       t_notes := (case p_notes p of None \<Rightarrow> t_notes t | Some n \<Rightarrow> n)\<rparr>"

definition updateTenant :: "env \<Rightarrow> string \<Rightarrow> tenant_patch \<Rightarrow> world \<Rightarrow> tenant option \<times> world" where
  "updateTenant e tenantId p w =
     (let (d, w1) = load e w
      in case map_of (tenants d) tenantId of
           None \<Rightarrow> (None, w1)
         | Some t \<Rightarrow>
             (let t' = assign_patch t p;
                  d' = d\<lparr>tenants := AList.update tenantId t' (tenants d)\<rparr>
              in (Some t', save e d' w1)))"


definition getDefaultTenant :: "env \<Rightarrow> world \<Rightarrow> tenant option \<times> world" where
  "getDefaultTenant e w =
     (let (d, w1) = load e w
      in (find (\<lambda>t. t_slug t = ''default'') (map snd (tenants d)), w1))"

subsection \<open>Instances\<close>

definition getAllInstances :: "env \<Rightarrow> string \<Rightarrow> world \<Rightarrow> instance list \<times> world" where
  "getAllInstances e tenantId w =
     (let (t, w1) = getTenant e tenantId w
      in case t of None \<Rightarrow> ([], w1) | Some t' \<Rightarrow> (map snd (t_instances t'), w1))"

definition getInstance :: "env \<Rightarrow> string \<Rightarrow> string \<Rightarrow> world \<Rightarrow> instance option \<times> world" where
  "getInstance e tenantId instanceId w =
     (let (t, w1) = getTenant e tenantId w
      in case t of None \<Rightarrow> (None, w1) | Some t' \<Rightarrow> (map_of (t_instances t') instanceId, w1))"

definition addInstance :: "env \<Rightarrow> string \<Rightarrow> instance \<Rightarrow> world \<Rightarrow> instance option \<times> world" where
  "addInstance e tenantId i w =
     (let (d, w1) = load e w
      in case map_of (tenants d) tenantId of
           None \<Rightarrow> (None, w1)
         | Some t \<Rightarrow>
             (let t' = t\<lparr>t_instances := AList.update (i_id i) i (t_instances t)\<rparr>;
                  d' = d\<lparr>tenants := AList.update tenantId t' (tenants d)\<rparr>
              in (Some i, save e d' w1)))"

definition removeInstance :: "env \<Rightarrow> string \<Rightarrow> string \<Rightarrow> world \<Rightarrow> instance option \<times> world" where
  "removeInstance e tenantId instanceId w =
     (let (d, w1) = load e w
      in case map_of (tenants d) tenantId of
           None \<Rightarrow> (None, w1)
         | Some t \<Rightarrow>
             (let removed = map_of (t_instances t) instanceId;
                  t' = t\<lparr>t_instances := AList.delete instanceId (t_instances t)\<rparr>;
                  d' = d\<lparr>tenants := AList.update tenantId t' (tenants d)\<rparr>
              in (removed, save e d' w1)))"

fun firstInstance :: "tenant list \<Rightarrow> string \<Rightarrow> (tenant \<times> instance) option" where
  \<comment> \<open>the \<open>for\<close> loop over \<open>Object.values(data.tenants)\<close>\<close>
  "firstInstance [] instanceId = None"
| "firstInstance (t # ts) instanceId =
     (case map_of (t_instances t) instanceId of
        Some i \<Rightarrow> Some (t, i)
      | None \<Rightarrow> firstInstance ts instanceId)"

definition findInstanceAcrossTenants ::
  "env \<Rightarrow> string \<Rightarrow> world \<Rightarrow> (tenant \<times> instance) option \<times> world" where
  "findInstanceAcrossTenants e instanceId w =
     (let (d, w1) = load e w in (firstInstance (map snd (tenants d)) instanceId, w1))"

section \<open>The control-plane client (railway-api.js)\<close>

function show_nat :: "nat \<Rightarrow> string" where
  "show_nat n =
     (if n < 10 then [char_of (48 + n)] else show_nat (n div 10) @ [char_of (48 + n mod 10)])"
  by pat_completeness auto
termination
  by (relation "measure id") auto

fun join :: "string \<Rightarrow> string list \<Rightarrow> string" where
  "join sep [] = []"
| "join sep [x] = x"
| "join sep (x # y # ys) = x @ sep @ join sep (y # ys)"

definition parseInt :: "string \<Rightarrow> int option" where
  \<comment> \<open>\<open>parseInt(s, 10)\<close>: white space, a sign, then the decimal digits; \<open>None\<close> is \<open>NaN\<close>\<close>
  "parseInt s =
     (let s1 = dropWhile is_space s;
          neg = (s1 \<noteq> [] \<and> hd s1 = CHR ''-'');
          s2 = (if s1 \<noteq> [] \<and> (hd s1 = CHR ''-'' \<or> hd s1 = CHR ''+'') then tl s1 else s1);
          ds = takeWhile is_digit s2
      in if ds = [] then None
         else Some ((if neg then - 1 else 1)
                * foldl (\<lambda>a c. 10 * a + (int (of_char c) - 48)) 0 ds))"

record http_response =
  status :: nat
  retry_after :: "string option"  \<comment> \<open>\<open>res.headers.get("Retry-After")\<close>\<close>
  body_text :: string  \<comment> \<open>\<open>res.text()\<close>\<close>
  body_json :: "(string list \<times> gql_data) option"
    \<comment> \<open>\<open>res.json()\<close>: the messages of \<open>errors\<close> and \<open>data\<close>; \<open>None\<close> when it throws\<close>

datatype fetched = Rejected string | Responded http_response

datatype gql_result = Returned gql_data | Threw string | Pending

definition ok :: "http_response \<Rightarrow> bool" where
  "ok res = (200 \<le> status res \<and> status res \<le> 299)"

text \<open>
  \<open>railwayGql\<close> over the answers the transport gives to its successive \<open>fetch\<close> calls.
  The result comes with the delays (in milliseconds, \<open>None\<close> for \<open>NaN\<close>) handed to
  \<open>setTimeout\<close> and the number of requests sent.  \<open>Pending\<close>: the answers listed are used
  up and the call is still waiting for one.
\<close>

fun railwayGql :: "fetched list \<Rightarrow> gql_result \<times> int option list \<times> nat" where
  "railwayGql [] = (Pending, [], 1)"
| "railwayGql (Rejected err # rest) = (Threw err, [], 1)"
| "railwayGql (Responded res # rest) =
     (if status res = 429 then
        (let retryAfter =
               parseInt (case retry_after res of
                           None \<Rightarrow> ''5''
                         | Some h \<Rightarrow> if h = [] then ''5'' else h);
             (r, delays, n) = railwayGql rest
         in (r, map_option (\<lambda>s. s * 1000) retryAfter # delays, Suc n))
      else if \<not> ok res then
        (Threw (''Error: Railway API HTTP '' @ show_nat (status res) @ '': '' @ body_text res),
         [], 1)
      else
        (case body_json res of
           None \<Rightarrow> (Threw ''SyntaxError'', [], 1)
         | Some (errors, d) \<Rightarrow>
             if errors \<noteq> [] then
               (Threw (''Error: Railway API error: '' @ join ''; '' errors), [], 1)
             else (Returned d, [], 1)))"

definition callGql :: "control_plane \<Rightarrow> gql_op \<Rightarrow> world \<Rightarrow> (string + gql_data) \<times> world" where
  \<comment> \<open>\<open>await railwayGql(op, variables)\<close> inside a handler: the call is recorded\<close>
  "callGql cp op w = (cp op, w\<lparr>calls := calls w @ [Gql op]\<rparr>)"

section \<open>Status resolution (server.js)\<close>

definition STATUS_CACHE_TTL :: int where
  "STATUS_CACHE_TTL = 30000"

definition latestDeployment :: "gql_data \<Rightarrow> deployment option" where
  \<comment> \<open>\<open>depData.deployments?.edges?.[0]\<close>\<close>
  "latestDeployment depData =
     (case depData of
        DeploymentsData ((did, st, created) # _) \<Rightarrow>
          Some \<lparr>d_id = Some did, d_status = st, d_createdAt = Some created, d_error = None\<rparr>
      | _ \<Rightarrow> None)"

definition first_domain :: "string list \<Rightarrow> string option" where
  \<comment> \<open>\<open>xs?.[0]?.domain\<close>, kept only when truthy\<close>
  "first_domain xs = (case xs of [] \<Rightarrow> None | x # _ \<Rightarrow> if x = [] then None else Some x)"

definition discoverDomain :: "gql_data \<Rightarrow> string \<Rightarrow> string option" where
  \<comment> \<open>\<open>cd || sd || null\<close> for the service of the instance\<close>
  "discoverDomain projData sid =
     (case projData of
        ProjectData svcs \<Rightarrow>
          (case find (\<lambda>n. svc_id n = sid) svcs of
             None \<Rightarrow> None
           | Some svc \<Rightarrow>
               (case serviceInstances svc of
                  [] \<Rightarrow> None
                | inst # _ \<Rightarrow>
                    (case first_domain (customDomains inst) of
                       Some cd \<Rightarrow> Some cd
                     | None \<Rightarrow> first_domain (serviceDomains inst))))
      | _ \<Rightarrow> None)"

definition unknownDeployment :: "string \<Rightarrow> deployment" where
  "unknownDeployment err =
     \<lparr>d_id = None, d_status = ''UNKNOWN'', d_createdAt = None, d_error = Some err\<rparr>"

definition compositeStatus :: "deployment option \<Rightarrow> jsval \<Rightarrow> string" where
  "compositeStatus dep health =
     (case dep of
        None \<Rightarrow> ''no-deployment''
      | Some d \<Rightarrow>
          if d_status d = ''BUILDING'' then ''building''
          else if d_status d = ''DEPLOYING'' then ''deploying''
          else if d_status d = ''FAILED'' \<or> d_status d = ''CRASHED'' then ''failed''
          else if d_status d = ''SUCCESS'' then
            (if \<not> truthy health then ''unhealthy''
             else if \<not> truthy_opt (get_prop health ''configured'') then ''needs-setup''
             else if (case get_prop health ''gateway'' of
                        None \<Rightarrow> False
                      | Some JNull \<Rightarrow> False
                      | Some g \<Rightarrow> truthy_opt (get_prop g ''reachable''))
             then ''running''
             else ''unhealthy'')
          else if d_status d = ''REMOVED'' then ''stopped''
          else ''unknown'')"

subsection \<open>One request, from one await to the next\<close>

text \<open>
  \<open>getInstanceStatus\<close> is an \<open>async\<close> function: it runs up to its next \<open>await\<close> and is
  resumed with the answer later, and other requests of the process run in between.  A
  request is therefore a task, and \<open>statusStep\<close> takes it from one \<open>await\<close> to the next (or
  to its end) at the time \<open>now\<close>: the cache is read when the request starts, a remote call
  is on the trace from the moment it is sent, and the cache entry is written by the step
  that ends the request.  The two \<open>await\<close>s of the probe (the answer and its body) are one
  step.
\<close>

datatype status_task =
    NotStarted
  | AwaitingDeployments
  | AwaitingProject "deployment option"
  | AwaitingProbe "deployment option" string
  | Settled status_data

definition resolveStatus ::
  "int \<Rightarrow> instance \<Rightarrow> deployment option \<Rightarrow> string option \<Rightarrow> jsval \<Rightarrow> world
     \<Rightarrow> status_task \<times> world" where
  \<comment> \<open>from \<open>// Resolve composite status.\<close> to the \<open>return\<close>\<close>
  "resolveStatus now inst dep domain health w =
     (let statusData =
            \<lparr>sd_deployment = dep, sd_domain = domain, sd_health = health,
             sd_status = compositeStatus dep health\<rparr>
      in (Settled statusData,
          w\<lparr>statusCache :=
               (statusCache w)(i_id inst \<mapsto> \<lparr>data = statusData, fetchedAt = now\<rparr>)\<rparr>))"

definition afterQueries ::
  "int \<Rightarrow> instance \<Rightarrow> deployment option \<Rightarrow> string option \<Rightarrow> world \<Rightarrow> status_task \<times> world" where
  \<comment> \<open>\<open>if (domain && deployment?.status === "SUCCESS")\<close>: the probe is sent, or the request
     ends without one\<close>
  "afterQueries now inst dep domain w =
     (case domain of
        None \<Rightarrow> resolveStatus now inst dep None JNull w
      | Some d \<Rightarrow>
          if (case dep of None \<Rightarrow> False | Some x \<Rightarrow> d_status x = ''SUCCESS'') then
            (AwaitingProbe dep d, w\<lparr>calls := calls w @ [HealthProbe d]\<rparr>)
          else resolveStatus now inst dep (Some d) JNull w)"

definition statusStep ::
  "control_plane \<Rightarrow> (string \<Rightarrow> probe_result) \<Rightarrow> int \<Rightarrow> instance \<Rightarrow> status_task \<Rightarrow> world
     \<Rightarrow> status_task \<times> world" where
  "statusStep cp probe now inst task w =
     (case task of
        NotStarted \<Rightarrow>
          (case (case statusCache w (i_id inst) of
                   None \<Rightarrow> None
                 | Some cached \<Rightarrow>
                     if now - fetchedAt cached < STATUS_CACHE_TTL then Some (data cached)
                     else None) of
             Some hit \<Rightarrow> (Settled hit, w)
           | None \<Rightarrow>
               (AwaitingDeployments,
                w\<lparr>calls :=
                     calls w @ [Gql (DEPLOYMENTS_QUERY (serviceId (i_railway inst))
                                       (environmentId (i_railway inst)))]\<rparr>))
      | AwaitingDeployments \<Rightarrow>
          (case cp (DEPLOYMENTS_QUERY (serviceId (i_railway inst))
                      (environmentId (i_railway inst))) of
             Inl err \<Rightarrow> afterQueries now inst (Some (unknownDeployment err)) None w
           | Inr depData \<Rightarrow>
               (AwaitingProject (latestDeployment depData),
                w\<lparr>calls := calls w @ [Gql (PROJECT_QUERY (projectId (i_railway inst)))]\<rparr>))
      | AwaitingProject dep \<Rightarrow>
          (case cp (PROJECT_QUERY (projectId (i_railway inst))) of
             Inl err \<Rightarrow> afterQueries now inst (Some (unknownDeployment err)) None w
           | Inr projData \<Rightarrow>
               afterQueries now inst dep
                 (discoverDomain projData (serviceId (i_railway inst))) w)
      | AwaitingProbe dep d \<Rightarrow>
          resolveStatus now inst dep (Some d)
            (case probe d of OkJson j \<Rightarrow> j | _ \<Rightarrow> JNull) w
      | Settled sd \<Rightarrow> (Settled sd, w))"

fun awaits_left :: "status_task \<Rightarrow> nat" where
  "awaits_left NotStarted = 4"
| "awaits_left AwaitingDeployments = 3"
| "awaits_left (AwaitingProject dep) = 2"
| "awaits_left (AwaitingProbe dep d) = 1"
| "awaits_left (Settled sd) = 0"

text \<open>A task that is resumed at once, every time, until it ends.\<close>

function runStatus ::
  "control_plane \<Rightarrow> (string \<Rightarrow> probe_result) \<Rightarrow> int \<Rightarrow> instance \<Rightarrow> status_task \<Rightarrow> world
     \<Rightarrow> status_data \<times> world" where
  "runStatus cp probe now inst (Settled sd) w = (sd, w)"
| "runStatus cp probe now inst NotStarted w =
     (case statusStep cp probe now inst NotStarted w of
        (task, w') \<Rightarrow> runStatus cp probe now inst task w')"
| "runStatus cp probe now inst AwaitingDeployments w =
     (case statusStep cp probe now inst AwaitingDeployments w of
        (task, w') \<Rightarrow> runStatus cp probe now inst task w')"
| "runStatus cp probe now inst (AwaitingProject dep) w =
     (case statusStep cp probe now inst (AwaitingProject dep) w of
        (task, w') \<Rightarrow> runStatus cp probe now inst task w')"
| "runStatus cp probe now inst (AwaitingProbe dep d) w =
     (case statusStep cp probe now inst (AwaitingProbe dep d) w of
        (task, w') \<Rightarrow> runStatus cp probe now inst task w')"
  by pat_completeness auto
termination
  by (relation "measure (\<lambda>(cp, probe, now, inst, task, w). awaits_left task)")
     (auto simp add: statusStep_def afterQueries_def resolveStatus_def Let_def
        split: option.splits sum.splits if_splits)

definition getInstanceStatus ::
  "control_plane \<Rightarrow> (string \<Rightarrow> probe_result) \<Rightarrow> int \<Rightarrow> int \<Rightarrow> instance \<Rightarrow> world
     \<Rightarrow> status_data \<times> world" where
  \<comment> \<open>a request that no other request of the instance overlaps: it starts at \<open>now\<close> and
     every \<open>await\<close> of it is over at \<open>now'\<close>\<close>
  "getInstanceStatus cp probe now now' inst w =
     (case statusStep cp probe now inst NotStarted w of
        (task, w1) \<Rightarrow> runStatus cp probe now' inst task w1)"

text \<open>
  Several requests for the same instance in one process: \<open>(k, now)\<close> in the schedule
  resumes request \<open>k\<close> at the time \<open>now\<close>.
\<close>

fun eventLoop ::
  "control_plane \<Rightarrow> (string \<Rightarrow> probe_result) \<Rightarrow> instance \<Rightarrow> (nat \<times> int) list
     \<Rightarrow> status_task list \<Rightarrow> world \<Rightarrow> status_task list \<times> world" where
  "eventLoop cp probe inst [] tasks w = (tasks, w)"
| "eventLoop cp probe inst ((k, now) # rest) tasks w =
     (if k < length tasks then
        (case statusStep cp probe now inst (tasks ! k) w of
           (task, w') \<Rightarrow> eventLoop cp probe inst rest (tasks[k := task]) w')
      else eventLoop cp probe inst rest tasks w)"

subsection \<open>The two remote blocks of a request that nothing overlaps\<close>

text \<open>
  What the steps of a request amount to when it is resumed at once every time: the \<open>try\<close>
  block with the two queries, then the probe, each in one piece.
\<close>

definition queryControlPlane ::
  "control_plane \<Rightarrow> instance \<Rightarrow> world \<Rightarrow> (deployment option \<times> string option) \<times> world" where
  \<comment> \<open>the \<open>try\<close> block of \<open>getInstanceStatus\<close> with its \<open>catch\<close>\<close>
  "queryControlPlane cp inst w =
     (let (r1, w1) =
            callGql cp (DEPLOYMENTS_QUERY (serviceId (i_railway inst))
                          (environmentId (i_railway inst))) w
      in case r1 of
           Inl err \<Rightarrow> ((Some (unknownDeployment err), None), w1)
         | Inr depData \<Rightarrow>
             (let (r2, w2) = callGql cp (PROJECT_QUERY (projectId (i_railway inst))) w1
              in case r2 of
                   Inl err \<Rightarrow> ((Some (unknownDeployment err), None), w2)
                 | Inr projData \<Rightarrow>
                     ((latestDeployment depData,
                       discoverDomain projData (serviceId (i_railway inst))), w2)))"

definition probeHealth ::
  "(string \<Rightarrow> probe_result) \<Rightarrow> deployment option \<Rightarrow> string option \<Rightarrow> world \<Rightarrow> jsval \<times> world" where
  \<comment> \<open>\<open>if (domain && deployment?.status === "SUCCESS")\<close>: GET \<open>https://domain/healthz\<close>\<close>
  "probeHealth probe dep domain w =
     (case domain of
        None \<Rightarrow> (JNull, w)
      | Some d \<Rightarrow>
          if (case dep of None \<Rightarrow> False | Some x \<Rightarrow> d_status x = ''SUCCESS'') then
            (let w1 = w\<lparr>calls := calls w @ [HealthProbe d]\<rparr>
             in case probe d of OkJson j \<Rightarrow> (j, w1) | _ \<Rightarrow> (JNull, w1))
          else (JNull, w))"

section \<open>The request handlers (server.js)\<close>

definition dq :: string where
  \<comment> \<open>the double quote character, as a string\<close>
  "dq = [CHR 0x22]"

definition GITHUB_REPO :: string where
  \<comment> \<open>\<open>process.env.GITHUB_REPO\<close>, at its default\<close>
  "GITHUB_REPO = ''TukaTek/cortexai-assistant''"

record request_body =
  b_name :: "string option"
  b_setupPassword :: "string option"
  b_notes :: "string option"

record created_summary =
  c_id :: string
  c_name :: string
  c_setupPassword :: string
  c_projectId :: string
  c_serviceId :: string
  c_environmentId :: string

text \<open>
  The JSON answers: \<open>Failure n error\<close> is \<open>res.status(n).json({ ok: false, error })\<close>; the
  others are \<open>{ ok: true, ... }\<close> with the tenant's id, name and slug (and notes after an
  update), with a message, or with the new instance and the step log.
\<close>

datatype reply =
    Failure nat string
  | TenantCreated string string string
  | TenantUpdated string string string string
  | Message string
  | InstanceCreated created_summary "string list"

definition name_char :: "char \<Rightarrow> bool" where
  \<comment> \<open>the class \<open>[a-zA-Z0-9 -]\<close>\<close>
  "name_char c = (is_lower c \<or> is_upper c \<or> is_digit c \<or> c = CHR '' '' \<or> c = CHR ''-'')"

definition sanitize :: "string \<Rightarrow> string" where
  \<comment> \<open>\<open>name.trim().replace(/[^a-zA-Z0-9 -]/g, "").slice(0, 50)\<close>\<close>
  "sanitize name = take 50 (filter name_char (trim name))"

subsection \<open>Tenants\<close>

definition createTenantHandler :: "env \<Rightarrow> request_body \<Rightarrow> world \<Rightarrow> reply \<times> world" where
  "createTenantHandler e body w =
     (case b_name body of
        None \<Rightarrow> (Failure 400 ''Name is required.'', w)
      | Some name \<Rightarrow>
          if trim name = [] then (Failure 400 ''Name is required.'', w)
          else
            (let cleanName = sanitize name
             in if cleanName = [] then
                  (Failure 400 ''Name must contain alphanumeric characters.'', w)
                else
                  (let slug = slugify cleanName;
                       (ts, w1) = getAllTenants e w
                   in case find (\<lambda>t. ts_slug t = slug) ts of
                        Some existing \<Rightarrow>
                          (Failure 409 (''A tenant with slug '' @ dq @ slug @ dq @ '' already exists.''), w1)
                      | None \<Rightarrow>
                          (let (t, w2) =
                                 addTenant e
                                   \<lparr>t_id = randomUUID e, t_name = cleanName, t_slug = slug,
                                    t_createdAt = nowISO e,
                                    t_notes = (case b_notes body of None \<Rightarrow> [] | Some n \<Rightarrow> n),
                                    t_tailscale = None, t_instances = []\<rparr> w1
                           in (TenantCreated (t_id t) (t_name t) (t_slug t),
                               console_log
                                 (''[fleet] Tenant created: '' @ dq @ cleanName @ dq @ '' ('' @ t_id t @ '')'')
                                 w2)))))"

definition updateTenantHandler ::
  "env \<Rightarrow> string \<Rightarrow> request_body \<Rightarrow> world \<Rightarrow> reply \<times> world" where
  "updateTenantHandler e tenantId body w =
     (let cleanName = map_option sanitize (b_name body)
      in if cleanName = Some [] then
           (Failure 400 ''Name must contain alphanumeric characters.'', w)
         else
           (let patch =
                  \<lparr>p_name = cleanName, p_slug = map_option slugify cleanName,
                   p_notes = b_notes body\<rparr>;
                (updated, w1) = updateTenant e tenantId patch w
            in case updated of
                 None \<Rightarrow> (Failure 404 ''Tenant not found.'', w1)
               | Some t \<Rightarrow> (TenantUpdated (t_id t) (t_name t) (t_slug t) (t_notes t), w1)))"



subsection \<open>Restart and redeploy\<close>

definition restartHandler ::
  "control_plane \<Rightarrow> env \<Rightarrow> string \<Rightarrow> string \<Rightarrow> world \<Rightarrow> reply \<times> world" where
  "restartHandler cp e tid iid w =
     (let (found, w1) = getInstance e tid iid w
      in case found of
           None \<Rightarrow> (Failure 404 ''Not found'', w1)
         | Some inst \<Rightarrow>
             (let (r, w2) =
                    callGql cp (SERVICE_INSTANCE_REDEPLOY (serviceId (i_railway inst))
                                  (environmentId (i_railway inst))) w1
              in case r of
                   Inl err \<Rightarrow> (Failure 500 err, w2)
                 | Inr _ \<Rightarrow>
                     (Message ''Redeployment triggered.'',
                      w2\<lparr>statusCache := (statusCache w2)(i_id inst := None)\<rparr>)))"

definition redeployHandler ::
  "control_plane \<Rightarrow> env \<Rightarrow> string \<Rightarrow> string \<Rightarrow> world \<Rightarrow> reply \<times> world" where
  "redeployHandler cp e tid iid w =
     (let (found, w1) = getInstance e tid iid w
      in case found of
           None \<Rightarrow> (Failure 404 ''Not found'', w1)
         | Some inst \<Rightarrow>
             (let (r, w2) =
                    callGql cp (SERVICE_INSTANCE_REDEPLOY (serviceId (i_railway inst))
                                  (environmentId (i_railway inst))) w1
              in case r of
                   Inl err \<Rightarrow> (Failure 500 err, w2)
                 | Inr _ \<Rightarrow>
                     (Message ''Redeployment triggered.'',
                      w2\<lparr>statusCache := (statusCache w2)(i_id inst := None)\<rparr>)))"

subsection \<open>Instance creation\<close>

text \<open>
  The provisioning workflow.  Its state is the \<open>log\<close> array and the world; \<open>addLog\<close>
  appends to the array and prints the line.  A step that throws ends the \<open>try\<close> block with
  \<open>Inl\<close> the error text; the log as it stands is returned beside it, so that the model
  shows what the array held when the \<open>catch\<close> clause took over.
\<close>

type_synonym logged = "string list \<times> world"

definition addLog :: "tenant \<Rightarrow> string \<Rightarrow> string \<Rightarrow> logged \<Rightarrow> logged" where
  "addLog tenant cleanName msg st =
     (fst st @ [msg],
      console_log (''[fleet] ['' @ t_slug tenant @ ''/'' @ cleanName @ ''] '' @ msg) (snd st))"

definition typeError :: string where
  \<comment> \<open>reading a property of \<open>undefined\<close>: the answer has not the shape the handler reads\<close>
  "typeError = ''TypeError: Cannot read properties of undefined''"

definition serviceSlugOf :: "string \<Rightarrow> string" where
  \<comment> \<open>\<open>"cortexai-" + cleanName.toLowerCase().replace(/\s+/g, "-").replace(/[^a-z0-9-]/g, "")\<close>\<close>
  "serviceSlugOf cleanName =
     ''cortexai-''
       @ filter (\<lambda>c. slug_char c \<or> c = CHR ''-'') (replace_runs is_space (toLowerCase cleanName))"

definition instanceVariables :: "string \<Rightarrow> string \<Rightarrow> (string \<times> string) list" where
  "instanceVariables finalSetupPassword token =
     [(''SETUP_PASSWORD'', finalSetupPassword),
      (''OPENCLAW_STATE_DIR'', ''/data/.openclaw''),
      (''OPENCLAW_WORKSPACE_DIR'', ''/data/workspace''),
      (''OPENCLAW_GATEWAY_TOKEN'', token),
      (''PORT'', ''8080''),
      (''OPENCLAW_PUBLIC_PORT'', ''8080'')]"

record provisioning =
  pv_tenantId :: string
  pv_tenant :: tenant
  pv_cleanName :: string
  pv_notes :: "string option"
  pv_finalSetupPassword :: string
  pv_gatewayToken :: string
  pv_instanceId :: string
  pv_projectId :: string
  pv_environmentId :: string
  pv_serviceSlug :: string
  pv_serviceId :: string
  pv_volumeId :: string

definition tailscaleStep ::
  "control_plane \<Rightarrow> mesh \<Rightarrow> provisioning \<Rightarrow> logged \<Rightarrow> string option \<times> logged" where
  \<comment> \<open>step 5b: best effort, every failure is logged and swallowed\<close>
  "tailscaleStep cp m pv st =
     (let L = addLog (pv_tenant pv) (pv_cleanName pv)
      in if \<not> isTailscaleConfigured m then (None, st)
         else
           (let (l1, w1) = L ''Generating Tailscale auth key...'' st;
                w2 = w1\<lparr>calls := calls w1 @ [TailscaleToken]\<rparr>
            in case getTailscaleToken m of
                 Inl err \<Rightarrow> (None, L (''Tailscale setup skipped: '' @ err) (l1, w2))
               | Inr tsToken \<Rightarrow>
                   (let w3 = w2\<lparr>calls := calls w2 @ [TailscaleKey tsToken (pv_serviceSlug pv)]\<rparr>
                    in case createAuthKey m tsToken (pv_serviceSlug pv) of
                         Inl err \<Rightarrow> (None, L (''Tailscale setup skipped: '' @ err) (l1, w3))
                       | Inr tsKey \<Rightarrow>
                           (let (r, w4) =
                                  callGql cp
                                    (VARIABLE_COLLECTION_UPSERT (pv_projectId pv)
                                       (pv_environmentId pv) (pv_serviceId pv)
                                       [(''TS_AUTHKEY'', tsKey),
                                        (''TS_HOSTNAME'', pv_serviceSlug pv)] False) w3
                            in case r of
                                 Inl err \<Rightarrow>
                                   (None, L (''Tailscale setup skipped: '' @ err) (l1, w4))
                               | Inr _ \<Rightarrow>
                                   (Some (pv_serviceSlug pv),
                                    L (''Tailscale key created. Device will join as '' @ dq
                                         @ pv_serviceSlug pv @ dq @ ''.'') (l1, w4))))))"

definition domainStep :: "control_plane \<Rightarrow> provisioning \<Rightarrow> logged \<Rightarrow> logged" where
  \<comment> \<open>step 6: best effort\<close>
  "domainStep cp pv st =
     (let L = addLog (pv_tenant pv) (pv_cleanName pv);
          (l1, w1) = L ''Creating public domain...'' st;
          (r, w2) = callGql cp (SERVICE_DOMAIN_CREATE (pv_serviceId pv) (pv_environmentId pv)) w1
      in case r of
           Inl err \<Rightarrow>
             L (''Domain creation note: '' @ err @ '' (may auto-assign later).'') (l1, w2)
         | Inr d \<Rightarrow>
             L (''Domain: ''
                  @ (case d of
                       DomainCreateData (Some x) \<Rightarrow> if x = [] then ''(pending)'' else x
                     | _ \<Rightarrow> ''(pending)'')) (l1, w2))"

definition finishInstance ::
  "control_plane \<Rightarrow> mesh \<Rightarrow> env \<Rightarrow> provisioning \<Rightarrow> logged
     \<Rightarrow> (string + created_summary) \<times> logged" where
  \<comment> \<open>steps 5b to 8, once the variables are set\<close>
  "finishInstance cp m e pv st =
     (let L = addLog (pv_tenant pv) (pv_cleanName pv);
          (tailscaleHostname, st1) = tailscaleStep cp m pv st;
          st2 = domainStep cp pv st1;
          (l3, w3) = L ''Triggering deployment...'' st2;
          (r, w4) =
            callGql cp (SERVICE_INSTANCE_DEPLOY (pv_serviceId pv) (pv_environmentId pv)) w3
      in case r of
           Inl err \<Rightarrow> (Inl err, (l3, w4))
         | Inr _ \<Rightarrow>
             (let (l5, w5) = L ''Deployment triggered. Build will take several minutes.'' (l3, w4);
                  (saved, w6) =
                    addInstance e (pv_tenantId pv)
                      \<lparr>i_id = pv_instanceId pv, i_name = pv_cleanName pv,
                       i_createdAt = nowISO e,
                       i_railway =
                         \<lparr>projectId = pv_projectId pv, serviceId = pv_serviceId pv,
                          environmentId = pv_environmentId pv, volumeId = pv_volumeId pv\<rparr>,
                       i_config =
                         \<lparr>setupPassword = pv_finalSetupPassword pv,
                          gatewayToken = pv_gatewayToken pv\<rparr>,
                       i_tailscale = tailscaleHostname,
                       i_notes = (case pv_notes pv of None \<Rightarrow> [] | Some n \<Rightarrow> n)\<rparr> w5
              in (Inr \<lparr>c_id = pv_instanceId pv, c_name = pv_cleanName pv,
                       c_setupPassword = pv_finalSetupPassword pv,
                       c_projectId = pv_projectId pv, c_serviceId = pv_serviceId pv,
                       c_environmentId = pv_environmentId pv\<rparr>,
                  L ''Instance saved to fleet store.'' (l5, w6))))"

definition setVariables ::
  "control_plane \<Rightarrow> mesh \<Rightarrow> env \<Rightarrow> provisioning \<Rightarrow> logged
     \<Rightarrow> (string + created_summary) \<times> logged" where
  \<comment> \<open>step 5 of the source: the variable upsert\<close>
  "setVariables cp m e pv st =
     (let L = addLog (pv_tenant pv) (pv_cleanName pv);
          (l1, w1) = L ''Setting environment variables...'' st;
          (r, w2) =
            callGql cp
              (VARIABLE_COLLECTION_UPSERT (pv_projectId pv) (pv_environmentId pv)
                 (pv_serviceId pv)
                 (instanceVariables (pv_finalSetupPassword pv) (pv_gatewayToken pv)) False) w1
      in case r of
           Inl err \<Rightarrow> (Inl err, (l1, w2))
         | Inr _ \<Rightarrow> finishInstance cp m e pv (L ''Variables set.'' (l1, w2)))"

definition createVolume ::
  "control_plane \<Rightarrow> mesh \<Rightarrow> env \<Rightarrow> provisioning \<Rightarrow> logged
     \<Rightarrow> (string + created_summary) \<times> logged" where
  \<comment> \<open>step 4 of the source\<close>
  "createVolume cp m e pv st =
     (let L = addLog (pv_tenant pv) (pv_cleanName pv);
          (l1, w1) = L ''Creating volume at /data...'' st;
          (r, w2) =
            callGql cp
              (VOLUME_CREATE (pv_projectId pv) (pv_serviceId pv) (pv_environmentId pv) ''/data'')
              w1
      in case r of
           Inl err \<Rightarrow> (Inl err, (l1, w2))
         | Inr (VolumeCreateData vid) \<Rightarrow>
             setVariables cp m e (pv\<lparr>pv_volumeId := vid\<rparr>)
               (L (''Volume created: '' @ vid) (l1, w2))
         | Inr _ \<Rightarrow> (Inl typeError, (l1, w2)))"

definition createService ::
  "control_plane \<Rightarrow> mesh \<Rightarrow> env \<Rightarrow> provisioning \<Rightarrow> logged
     \<Rightarrow> (string + created_summary) \<times> logged" where
  \<comment> \<open>step 3 of the source\<close>
  "createService cp m e pv0 st =
     (let L = addLog (pv_tenant pv0) (pv_cleanName pv0);
          pv = pv0\<lparr>pv_serviceSlug := serviceSlugOf (pv_cleanName pv0)\<rparr>;
          (l1, w1) =
            L (''Creating service '' @ dq @ pv_serviceSlug pv @ dq @ '' from '' @ GITHUB_REPO
                 @ ''...'') st;
          (r, w2) =
            callGql cp (SERVICE_CREATE (pv_projectId pv) (pv_serviceSlug pv) GITHUB_REPO) w1
      in case r of
           Inl err \<Rightarrow> (Inl err, (l1, w2))
         | Inr (ServiceCreateData sid) \<Rightarrow>
             createVolume cp m e (pv\<lparr>pv_serviceId := sid\<rparr>)
               (L (''Service created: '' @ sid) (l1, w2))
         | Inr _ \<Rightarrow> (Inl typeError, (l1, w2)))"

definition projectLabelOf :: "tenant \<Rightarrow> string \<Rightarrow> string" where
  "projectLabelOf tenant cleanName =
     (if t_slug tenant = ''default'' then ''CortexAI - '' @ cleanName
      else ''CortexAI - '' @ t_slug tenant @ '' - '' @ cleanName)"

definition createProject ::
  "control_plane \<Rightarrow> mesh \<Rightarrow> env \<Rightarrow> provisioning \<Rightarrow> logged
     \<Rightarrow> (string + created_summary) \<times> logged" where
  \<comment> \<open>steps 1 and 2 of the source: the project and its default environment\<close>
  "createProject cp m e pv st =
     (let L = addLog (pv_tenant pv) (pv_cleanName pv);
          projectLabel = projectLabelOf (pv_tenant pv) (pv_cleanName pv);
          (l1, w1) = L (''Creating Railway project '' @ dq @ projectLabel @ dq @ ''...'') st;
          (r, w2) = callGql cp (PROJECT_CREATE projectLabel) w1
      in case r of
           Inl err \<Rightarrow> (Inl err, (l1, w2))
         | Inr (ProjectCreateData pid envs) \<Rightarrow>
             (let st3 = L (''Project created: '' @ pid) (l1, w2)
              in case envs of
                   [] \<Rightarrow> (Inl ''Error: No default environment found in new project.'', st3)
                 | (eid, ename) # _ \<Rightarrow>
                     createService cp m e (pv\<lparr>pv_projectId := pid, pv_environmentId := eid\<rparr>)
                       (L (''Environment: '' @ ename @ '' ('' @ eid @ '')'') st3))
         | Inr _ \<Rightarrow> (Inl typeError, (l1, w2)))"

definition finalSetupPasswordOf :: "env \<Rightarrow> request_body \<Rightarrow> string" where
  \<comment> \<open>\<open>setupPassword || crypto.randomBytes(16).toString("hex")\<close>\<close>
  "finalSetupPasswordOf e body =
     (case b_setupPassword body of
        None \<Rightarrow> randomHex16 e
      | Some p \<Rightarrow> if p = [] then randomHex16 e else p)"

definition startProvisioning ::
  "env \<Rightarrow> string \<Rightarrow> tenant \<Rightarrow> string \<Rightarrow> request_body \<Rightarrow> provisioning" where
  \<comment> \<open>what the handler fixes before the first step; the remote identifiers are not known yet\<close>
  "startProvisioning e tid tenant cleanName body =
     \<lparr>pv_tenantId = tid, pv_tenant = tenant, pv_cleanName = cleanName,
      pv_notes = b_notes body,
      pv_finalSetupPassword = finalSetupPasswordOf e body,
      pv_gatewayToken = randomHex32 e,
      pv_instanceId = randomUUID e,
      pv_projectId = [], pv_environmentId = [], pv_serviceSlug = [], pv_serviceId = [],
      pv_volumeId = []\<rparr>"

definition createInstanceHandler ::
  "control_plane \<Rightarrow> mesh \<Rightarrow> env \<Rightarrow> string \<Rightarrow> request_body \<Rightarrow> world \<Rightarrow> reply \<times> world" where
  "createInstanceHandler cp m e tid body w =
     (let (found, w1) = getTenant e tid w
      in case found of
           None \<Rightarrow> (Failure 404 ''Tenant not found.'', w1)
         | Some tenant \<Rightarrow>
             (case b_name body of
                None \<Rightarrow> (Failure 400 ''Name is required.'', w1)
              | Some name \<Rightarrow>
                  if trim name = [] then (Failure 400 ''Name is required.'', w1)
                  else
                    (let cleanName = sanitize name
                     in if cleanName = [] then
                          (Failure 400 ''Name must contain alphanumeric characters.'', w1)
                        else
                          (case createProject cp m e
                                  (startProvisioning e tid tenant cleanName body) ([], w1) of
                                (Inl err, (log, w2)) \<Rightarrow>
                                  (Failure 500 err,
                                   console_log (''[fleet] create error: '' @ err) w2)
                              | (Inr summary, (log, w2)) \<Rightarrow>
                                  (InstanceCreated summary log, w2)))))"

section \<open>Observations\<close>

definition stored_doc :: "world \<Rightarrow> fleet_doc option" where
  \<comment> \<open>the registry document at the canonical path, when the file holds one\<close>
  "stored_doc w =
     (case files w STORE_PATH of
        None \<Rightarrow> None
      | Some n \<Rightarrow> (case content n of Json d \<Rightarrow> Some d | Unparsable raw \<Rightarrow> None))"

definition slugs_of :: "fleet_doc \<Rightarrow> string list" where
  "slugs_of d = map (\<lambda>kv. t_slug (snd kv)) (tenants d)"

definition slugs_unique :: "fleet_doc \<Rightarrow> bool" where
  "slugs_unique d = distinct (slugs_of d)"

definition reply_log :: "reply \<Rightarrow> string list option" where
  \<comment> \<open>the \<open>log\<close> member of an answer, as the dashboard reads it (\<open>j.log\<close>)\<close>
  "reply_log r = (case r of InstanceCreated summary log \<Rightarrow> Some log | _ \<Rightarrow> None)"

definition is_success :: "deployment option \<Rightarrow> bool" where
  \<comment> \<open>\<open>deployment?.status === "SUCCESS"\<close>\<close>
  "is_success dep = (case dep of None \<Rightarrow> False | Some d \<Rightarrow> d_status d = ''SUCCESS'')"

definition redeploy_op :: "instance \<Rightarrow> gql_op" where
  \<comment> \<open>the redeploy mutation with the service id and environment id of an instance\<close>
  "redeploy_op inst =
     SERVICE_INSTANCE_REDEPLOY (serviceId (i_railway inst)) (environmentId (i_railway inst))"

definition probed_domain :: "deployment option \<Rightarrow> string option \<Rightarrow> string option" where
  \<comment> \<open>the domain a health probe is due for: one is known and the deployment succeeded\<close>
  "probed_domain dep domain =
     (case domain of None \<Rightarrow> None | Some d \<Rightarrow> if is_success dep then Some d else None)"

definition cache_miss :: "int \<Rightarrow> instance \<Rightarrow> world \<Rightarrow> bool" where
  \<comment> \<open>at time \<open>now\<close> the cache holds no entry for the instance that is younger than the TTL\<close>
  "cache_miss now inst w =
     (case statusCache w (i_id inst) of
        None \<Rightarrow> True
      | Some cached \<Rightarrow> \<not> (now - fetchedAt cached < STATUS_CACHE_TTL))"

subsection \<open>The decision table of the specification\<close>

text \<open>
  The table as the specification words it, top to bottom, over what it distinguishes: the
  deployment state, and whether health data is present and what it says.  The two read-off
  functions say how the raw values of the resolver fall into the rows.
\<close>

datatype dep_state =
  NoneFound | Building | Deploying | FailedOrCrashed | Success | Removed | AnythingElse

datatype health_view = Absent | Present bool bool

fun spec_status :: "dep_state \<Rightarrow> health_view \<Rightarrow> string" where
  "spec_status NoneFound h = ''no-deployment''"
| "spec_status Building h = ''building''"
| "spec_status Deploying h = ''deploying''"
| "spec_status FailedOrCrashed h = ''failed''"
| "spec_status Success Absent = ''unhealthy''"
| "spec_status Success (Present False reachable) = ''needs-setup''"
| "spec_status Success (Present True True) = ''running''"
| "spec_status Success (Present True False) = ''unhealthy''"
| "spec_status Removed h = ''stopped''"
| "spec_status AnythingElse h = ''unknown''"

definition dep_state_of :: "deployment option \<Rightarrow> dep_state" where
  "dep_state_of dep =
     (case dep of
        None \<Rightarrow> NoneFound
      | Some d \<Rightarrow>
          if d_status d = ''BUILDING'' then Building
          else if d_status d = ''DEPLOYING'' then Deploying
          else if d_status d = ''FAILED'' \<or> d_status d = ''CRASHED'' then FailedOrCrashed
          else if d_status d = ''SUCCESS'' then Success
          else if d_status d = ''REMOVED'' then Removed
          else AnythingElse)"

text \<open>
  Health data is present when the answer of the probe is a value JavaScript takes for
  true.  It says \<open>configured\<close> when it is an object whose member \<open>configured\<close> is such a
  value, and it says that the gateway is reachable when its member \<open>gateway\<close> is an object
  whose member \<open>reachable\<close> is such a value.
\<close>

fun is_set :: "jsval option \<Rightarrow> bool" where
  "is_set (Some (JBool b)) = b"
| "is_set (Some (JNum n)) = (n \<noteq> 0)"
| "is_set (Some (JStr s)) = (s \<noteq> [])"
| "is_set (Some (JArr xs)) = True"
| "is_set (Some (JObj kvs)) = True"
| "is_set (Some JNull) = False"
| "is_set None = False"

fun health_view_of :: "jsval \<Rightarrow> health_view" where
  "health_view_of (JObj kvs) =
     Present (is_set (map_of kvs ''configured''))
       (case map_of kvs ''gateway'' of
          Some (JObj g) \<Rightarrow> is_set (map_of g ''reachable'')
        | _ \<Rightarrow> False)"
| "health_view_of JNull = Absent"
| "health_view_of (JBool b) = (if b then Present False False else Absent)"
| "health_view_of (JNum n) = (if n = 0 then Absent else Present False False)"
| "health_view_of (JStr s) = (if s = [] then Absent else Present False False)"
| "health_view_of (JArr xs) = Present False False"

definition health_payload :: "bool \<Rightarrow> bool \<Rightarrow> jsval" where
  \<comment> \<open>\<open>{configured: c, gateway: {reachable: r}}\<close>\<close>
  "health_payload c r =
     JObj [(''configured'', JBool c), (''gateway'', JObj [(''reachable'', JBool r)])]"

subsection \<open>What a cascade and a provisioning run are expected to leave\<close>



text \<open>
  The log lines of the first three steps of the specification (project with its default
  environment, service, volume), as the workflow words them.
\<close>

definition steps_1_to_3_log ::
  "string \<Rightarrow> string \<Rightarrow> string \<Rightarrow> string \<Rightarrow> string \<Rightarrow> string \<Rightarrow> string \<Rightarrow> string list" where
  "steps_1_to_3_log label pid eid ename slug sid vid =
     [''Creating Railway project '' @ dq @ label @ dq @ ''...'',
      ''Project created: '' @ pid,
      ''Environment: '' @ ename @ '' ('' @ eid @ '')'',
      ''Creating service '' @ dq @ slug @ dq @ '' from '' @ GITHUB_REPO @ ''...'',
      ''Service created: '' @ sid,
      ''Creating volume at /data...'',
      ''Volume created: '' @ vid]"

section \<open>Example worlds\<close>

definition ex_env :: env where
  "ex_env =
     \<lparr>store_randomUUID = ''u-store'', randomUUID = ''u-req'',
      nowISO = ''2024-05-01T10:20:30.456Z'', randomHex16 = ''00ff'', randomHex32 = ''ff00''\<rparr>"

definition ex_instance :: "string \<Rightarrow> string \<Rightarrow> string \<Rightarrow> instance" where
  "ex_instance i n p =
     \<lparr>i_id = i, i_name = n, i_createdAt = ''2024-02-02T00:00:00.000Z'',
      i_railway =
        \<lparr>projectId = p, serviceId = ''svc-'' @ i, environmentId = ''env-'' @ i,
         volumeId = ''vol-'' @ i\<rparr>,
      i_config = \<lparr>setupPassword = ''pw'', gatewayToken = ''tok''\<rparr>,
      i_tailscale = None, i_notes = []\<rparr>"

definition ex_tenant :: "string \<Rightarrow> string \<Rightarrow> string \<Rightarrow> (string \<times> instance) list \<Rightarrow> tenant" where
  "ex_tenant i n s insts =
     \<lparr>t_id = i, t_name = n, t_slug = s, t_createdAt = ''2024-01-01T00:00:00.000Z'',
      t_notes = [], t_tailscale = None, t_instances = insts\<rparr>"

definition ex_world :: "fnode \<Rightarrow> world" where
  \<comment> \<open>a world whose only file is the registry\<close>
  "ex_world n =
     \<lparr>files = [STORE_PATH \<mapsto> n], fs_ops = [], statusCache = Map.empty, calls = [],
      console = []\<rparr>"


definition ex_doc2 :: fleet_doc where
  \<comment> \<open>a version-2 document: the default tenant, and a tenant with two instances\<close>
  "ex_doc2 =
     \<lparr>version = Some 2,
      tenants =
        [(''t0'', ex_tenant ''t0'' ''Default'' ''default'' []),
         (''t1'', ex_tenant ''t1'' ''Acme'' ''acme''
                    [(''i1'', ex_instance ''i1'' ''one'' ''p1''),
                     (''i2'', ex_instance ''i2'' ''two'' ''p2'')])],
      instances = None\<rparr>"

definition ex_registry :: world where
  \<comment> \<open>a world whose registry is the version-2 example\<close>
  "ex_registry = ex_world \<lparr>readable = True, content = Json ex_doc2\<rparr>"

definition ex_corrupt :: world where
  \<comment> \<open>a world whose registry file holds text that is no JSON\<close>
  "ex_corrupt = ex_world \<lparr>readable = True, content = Unparsable ''{oops''\<rparr>"

definition good_disk :: "string \<Rightarrow> bool" where
  \<comment> \<open>a disk that takes every write\<close>
  "good_disk path = False"

definition tmp_refused :: "string \<Rightarrow> bool" where
  \<comment> \<open>a disk that does not let the temporary file of \<open>save\<close> be written\<close>
  "tmp_refused path = (path = tmpPath)"

definition ex_body :: "string \<Rightarrow> request_body" where
  "ex_body n = \<lparr>b_name = Some n, b_setupPassword = None, b_notes = None\<rparr>"

definition rate_limited :: "string option \<Rightarrow> fetched" where
  \<comment> \<open>a 429 answer with the given \<open>Retry-After\<close> header\<close>
  "rate_limited h =
     Responded \<lparr>status = 429, retry_after = h, body_text = ''Too Many Requests'',
                body_json = None\<rparr>"

definition answered :: "gql_data \<Rightarrow> fetched" where
  \<comment> \<open>a 200 answer with no errors\<close>
  "answered d =
     Responded \<lparr>status = 200, retry_after = None, body_text = [], body_json = Some ([], d)\<rparr>"

definition healthy_payload :: jsval where
  \<comment> \<open>\<open>{configured: true, gateway: {reachable: true}}\<close>\<close>
  "healthy_payload =
     JObj [(''configured'', JBool True), (''gateway'', JObj [(''reachable'', JBool True)])]"

definition ex_cache_entry :: cache_entry where
  "ex_cache_entry =
     \<lparr>data = \<lparr>sd_deployment = None, sd_domain = None, sd_health = JNull,
              sd_status = ''no-deployment''\<rparr>,
      fetchedAt = 1000\<rparr>"

definition ex_cp :: control_plane where
  \<comment> \<open>an example control plane: the deletion of project \<open>p2\<close> and every variable upsert fail\<close>
  "ex_cp op =
     (case op of
        DEPLOYMENTS_QUERY sid eid \<Rightarrow>
          Inr (DeploymentsData [(''dep-1'', ''SUCCESS'', ''2024-04-01T00:00:00.000Z'')])
      | PROJECT_QUERY pid \<Rightarrow>
          Inr (ProjectData
                 [\<lparr>svc_id = ''svc-i1'',
                   serviceInstances =
                     [\<lparr>serviceDomains = [''one.up.railway.app''], customDomains = []\<rparr>]\<rparr>])
      | PROJECT_DELETE pid \<Rightarrow>
          if pid = ''p2'' then Inl ''Error: Railway API HTTP 500: boom'' else Inr NoData
      | PROJECT_CREATE n \<Rightarrow> Inr (ProjectCreateData ''proj-9'' [(''env-9'', ''production'')])
      | SERVICE_CREATE pid n repo \<Rightarrow> Inr (ServiceCreateData ''svc-9'')
      | VOLUME_CREATE pid sid eid mnt \<Rightarrow> Inr (VolumeCreateData ''vol-9'')
      | VARIABLE_COLLECTION_UPSERT pid eid sid vars repl \<Rightarrow>
          Inl ''Error: Railway API error: variables rejected''
      | _ \<Rightarrow> Inr NoData)"

definition down_cp :: control_plane where
  \<comment> \<open>a control plane that fails every call\<close>
  "down_cp op = Inl ''Error: Railway API HTTP 503: unavailable''"

definition ex_probe :: "string \<Rightarrow> probe_result" where
  "ex_probe d = (if d = ''one.up.railway.app'' then OkJson healthy_payload else FetchThrew)"

definition ex_mesh :: mesh where
  "ex_mesh =
     \<lparr>isTailscaleConfigured = False, getTailscaleToken = Inl ''Error: not configured'',
      createAuthKey = (\<lambda>tok host. Inl ''Error: not configured'')\<rparr>"

definition ex_cached_world :: world where
  \<comment> \<open>the example registry, with a status snapshot cached for instance \<open>i1\<close>\<close>
  "ex_cached_world =
     ex_registry
       \<lparr>statusCache := [''i1'' \<mapsto> ex_cache_entry]\<rparr>"

definition ex_running :: status_data where
  \<comment> \<open>the snapshot of instance \<open>i1\<close> under \<open>ex_cp\<close> and \<open>ex_probe\<close>\<close>
  "ex_running =
     \<lparr>sd_deployment =
        Some \<lparr>d_id = Some ''dep-1'', d_status = ''SUCCESS'',
              d_createdAt = Some ''2024-04-01T00:00:00.000Z'', d_error = None\<rparr>,
      sd_domain = Some ''one.up.railway.app'', sd_health = healthy_payload,
      sd_status = ''running''\<rparr>"

definition ex_unknown :: status_data where
  \<comment> \<open>the snapshot of any instance under \<open>down_cp\<close>\<close>
  "ex_unknown =
     \<lparr>sd_deployment = Some (unknownDeployment ''Error: Railway API HTTP 503: unavailable''),
      sd_domain = None, sd_health = JNull, sd_status = ''unknown''\<rparr>"

definition dead_probe :: "string \<Rightarrow> probe_result" where
  "dead_probe d = FetchThrew"

definition ex_after_first :: world where
  \<comment> \<open>the example world after a first status request that finished at time 1200\<close>
  "ex_after_first =
     ex_registry
       \<lparr>calls :=
          [Gql (DEPLOYMENTS_QUERY ''svc-i1'' ''env-i1''), Gql (PROJECT_QUERY ''p1''),
           HealthProbe ''one.up.railway.app''],
        statusCache := [''i1'' \<mapsto> \<lparr>data = ex_running, fetchedAt = 1200\<rparr>]\<rparr>"

section \<open>Facts about the store\<close>

lemmas path_defs =
  STORE_PATH_def DATA_DIR_def premigrate_bakPath_def tmpPath_def timestamp_bakPath_def

lemmas fs_defs =
  readFileSync_def copyFileSync_def existsSync_def writeFileSync_def renameSync_def

lemma paths_distinct [simp]:
  "STORE_PATH \<noteq> tmpPath" "tmpPath \<noteq> STORE_PATH"
  "STORE_PATH \<noteq> premigrate_bakPath" "premigrate_bakPath \<noteq> STORE_PATH"
  "tmpPath \<noteq> premigrate_bakPath" "premigrate_bakPath \<noteq> tmpPath"
  "STORE_PATH \<noteq> timestamp_bakPath t" "timestamp_bakPath t \<noteq> STORE_PATH"
  "tmpPath \<noteq> timestamp_bakPath t" "timestamp_bakPath t \<noteq> tmpPath"
  by (simp_all add: path_defs)

lemma load_current:
  "files w STORE_PATH = Some \<lparr>readable = True, content = Json d\<rparr> \<Longrightarrow>
   \<not> needs_migration d \<Longrightarrow> load e w = (d, w)"
  by (simp add: load_def readFileSync_def)

lemma files_save:
  "files (save e d w) =
     (if files w STORE_PATH = None then files w
      else (case readFileSync STORE_PATH w of
              None \<Rightarrow> files w
            | Some c \<Rightarrow>
                (files w)(timestamp_bakPath (nowISO e) \<mapsto> \<lparr>readable = True, content = c\<rparr>)))
       (STORE_PATH \<mapsto> \<lparr>readable = True, content = Json d\<rparr>, tmpPath := None)"
  by (auto simp add: save_def Let_def fs_defs path_defs fun_eq_iff split: option.splits)


lemma save_other [simp]:
  "statusCache (save e d w) = statusCache w"
  "calls (save e d w) = calls w"
  "console (save e d w) = console w"
  by (auto simp add: save_def Let_def fs_defs split: option.splits)

lemma stored_doc_save: "stored_doc (save e d w) = Some d"
  by (simp add: stored_doc_def files_save)


section \<open>Slugs\<close>

text \<open>What does hold of every slug: its length, its characters, its first character.\<close>

lemma slugify_length: "length (slugify name) \<le> 30"
  by (simp add: slugify_def)

lemma replace_runs_chars:
  "c \<in> set (replace_runs p s) \<Longrightarrow> c = CHR ''-'' \<or> (c \<in> set s \<and> \<not> p c)"
  by (induction p s rule: replace_runs.induct) (auto split: if_splits dest: set_dropWhileD)

lemma strip_edge_hyphens_subset: "set (strip_edge_hyphens s) \<subseteq> set s"
  by (auto simp add: strip_edge_hyphens_def Let_def split: list.splits if_splits
        dest: in_set_butlastD)

lemma slugify_chars:
  assumes "c \<in> set (slugify name)"
  shows "slug_char c \<or> c = CHR ''-''"
proof -
  have "c \<in> set (replace_runs (\<lambda>c. \<not> slug_char c) (toLowerCase name))"
    using assms strip_edge_hyphens_subset by (auto simp add: slugify_def dest: in_set_takeD)
  then show ?thesis
    using replace_runs_chars by fastforce
qed

lemma replace_runs_after_hyphen:
  assumes p: "p (CHR ''-'')" and out: "replace_runs p s = CHR ''-'' # d # r"
  shows "d \<noteq> CHR ''-''"
proof (cases s)
  case Nil
  with out show ?thesis by simp
next
  case (Cons c cs)
  show ?thesis
  proof (cases "p c")
    case False
    with out Cons p show ?thesis by auto
  next
    case True
    with out Cons have rest: "replace_runs p (dropWhile p cs) = d # r"
      by simp
    show ?thesis
    proof (cases "dropWhile p cs")
      case Nil
      with rest show ?thesis by simp
    next
      case (Cons c' cs')
      then have "\<not> p c'"
        by (metis hd_dropWhile list.sel(1) list.distinct(1))
      with rest Cons p show ?thesis by auto
    qed
  qed
qed

lemma strip_edge_hyphens_head:
  assumes "\<And>d r. s = CHR ''-'' # d # r \<Longrightarrow> d \<noteq> CHR ''-''"
    and "strip_edge_hyphens s \<noteq> []"
  shows "hd (strip_edge_hyphens s) \<noteq> CHR ''-''"
proof -
  define s1 where "s1 = (case s of [] \<Rightarrow> [] | c # cs \<Rightarrow> if c = CHR ''-'' then cs else s)"
  have st: "strip_edge_hyphens s = (if s1 \<noteq> [] \<and> last s1 = CHR ''-'' then butlast s1 else s1)"
    by (simp add: strip_edge_hyphens_def s1_def Let_def)
  have ne: "s1 \<noteq> []"
    using assms(2) st by (auto split: if_splits)
  have h1: "hd s1 \<noteq> CHR ''-''"
    using assms(1) ne by (cases s; cases "tl s") (auto simp add: s1_def split: if_splits)
  show ?thesis
    using assms(2) h1 ne by (cases s1; cases "tl s1") (auto simp add: st split: if_splits)
qed

lemma slugify_no_leading_hyphen:
  assumes "slugify name \<noteq> []"
  shows "hd (slugify name) \<noteq> CHR ''-''"
proof -
  let ?s = "replace_runs (\<lambda>c. \<not> slug_char c) (toLowerCase name)"
  have hy: "\<not> slug_char (CHR ''-'')"
    by (simp add: slug_char_def is_lower_def is_digit_def)
  have ne: "strip_edge_hyphens ?s \<noteq> []"
    using assms by (auto simp add: slugify_def)
  have "hd (strip_edge_hyphens ?s) \<noteq> CHR ''-''"
    using replace_runs_after_hyphen [of "\<lambda>c. \<not> slug_char c" "toLowerCase name"] hy ne
    by (intro strip_edge_hyphens_head) auto
  then show ?thesis
    using ne by (simp add: slugify_def hd_take)
qed

text \<open>
  Claim C4: for every name the output of \<open>slugify\<close> is lower case, made of \<open>[a-z0-9-]\<close>
  only, without a hyphen at either end and at most 30 characters long, and \<open>slugify\<close> is
  idempotent.  The code cuts to 30 characters after it has stripped the hyphens, so the cut
  can end on a hyphen: the tenant name of 29 letters \<open>a\<close>, a space and \<open>b\<close> (a name the
  sanitiser lets through unchanged) gets a slug that ends with a hyphen, and the slug of that
  slug is shorter.
\<close>

theorem slugify_cut_leaves_trailing_hyphen:
  "sanitize ''aaaaaaaaaaaaaaaaaaaaaaaaaaaaa b'' = ''aaaaaaaaaaaaaaaaaaaaaaaaaaaaa b''
   \<and> slugify ''aaaaaaaaaaaaaaaaaaaaaaaaaaaaa b'' = ''aaaaaaaaaaaaaaaaaaaaaaaaaaaaa-''
   \<and> slugify (slugify ''aaaaaaaaaaaaaaaaaaaaaaaaaaaaa b'') = ''aaaaaaaaaaaaaaaaaaaaaaaaaaaaa''"
  by code_simp

section \<open>Slug uniqueness\<close>

text \<open>
  The creation of a tenant keeps the slugs unique: it refuses a slug that is taken, and what
  it adds has a slug that no other tenant has.
\<close>

lemma getAllTenants_current:
  "files w STORE_PATH = Some \<lparr>readable = True, content = Json d\<rparr> \<Longrightarrow>
   \<not> needs_migration d \<Longrightarrow>
   map ts_slug (fst (getAllTenants e w)) = slugs_of d \<and> snd (getAllTenants e w) = w"
  by (simp add: getAllTenants_def load_current slugs_of_def comp_def)

lemma find_Some_iff_ex: "(\<exists>x. find P xs = Some x) \<longleftrightarrow> (\<exists>x \<in> set xs. P x)"
  by (induction xs) auto

lemma find_None_iff_all: "find P xs = None \<longleftrightarrow> (\<forall>x \<in> set xs. \<not> P x)"
  by (induction xs) auto

lemma slugs_of_update:
  "s \<notin> set (slugs_of d) \<Longrightarrow> slugs_unique d \<Longrightarrow> t_slug t = s \<Longrightarrow>
   slugs_unique (d\<lparr>tenants := AList.update k t (tenants d)\<rparr>)"
proof -
  assume a: "s \<notin> set (slugs_of d)" "slugs_unique d" "t_slug t = s"
  have "s \<notin> set (map (\<lambda>kv. t_slug (snd kv)) al) \<Longrightarrow>
        distinct (map (\<lambda>kv. t_slug (snd kv)) al) \<Longrightarrow>
        distinct (map (\<lambda>kv. t_slug (snd kv)) (AList.update k t al))
        \<and> set (map (\<lambda>kv. t_slug (snd kv)) (AList.update k t al))
            \<subseteq> insert s (set (map (\<lambda>kv. t_slug (snd kv)) al))" for al
    using a(3) by (induction al) (auto simp add: image_iff)
  then show ?thesis
    using a by (simp add: slugs_unique_def slugs_of_def)
qed

lemma stored_doc_console_log [simp]: "stored_doc (console_log l w) = stored_doc w"
  by (simp add: stored_doc_def console_log_def)

lemma createTenantHandler_keeps_slugs_unique:
  assumes stored: "files w STORE_PATH = Some \<lparr>readable = True, content = Json d\<rparr>"
    and cur: "\<not> needs_migration d"
    and uniq: "slugs_unique d"
  shows "\<exists>d'. stored_doc (snd (createTenantHandler e body w)) = Some d' \<and> slugs_unique d'"
proof -
  obtain ts where g: "getAllTenants e w = (ts, w)" and sl: "map ts_slug ts = slugs_of d"
    using getAllTenants_current [OF stored cur, of e] by (metis prod.collapse)
  have same: "stored_doc w = Some d"
    using stored by (simp add: stored_doc_def)
  have add: "snd (addTenant e t w) = save e (d\<lparr>tenants := AList.update (t_id t) t (tenants d)\<rparr>) w" for t
    by (simp add: addTenant_def load_current [OF stored cur] Let_def)
  have fresh: "s \<notin> set (slugs_of d)" if "find (\<lambda>t. ts_slug t = s) ts = None" for s
  proof
    assume "s \<in> set (slugs_of d)"
    then have "s \<in> ts_slug ` set ts"
      using sl by (metis list.set_map)
    then show False
      using that by (auto simp add: find_None_iff_all)
  qed
  show ?thesis
  proof (cases "b_name body")
    case None
    then show ?thesis
      using same uniq by (simp add: createTenantHandler_def)
  next
    case (Some name)
    show ?thesis
    proof (cases "trim name = [] \<or> sanitize name = []")
      case True
      then show ?thesis
        using same uniq Some by (auto simp add: createTenantHandler_def Let_def)
    next
      case False
      show ?thesis
      proof (cases "find (\<lambda>t. ts_slug t = slugify (sanitize name)) ts")
        case (Some existing)
        then show ?thesis
          using same uniq False \<open>b_name body = Some name\<close>
          by (simp add: createTenantHandler_def Let_def g)
      next
        case None
        define t where "t = \<lparr>t_id = randomUUID e, t_name = sanitize name,
            t_slug = slugify (sanitize name), t_createdAt = nowISO e,
            t_notes = (case b_notes body of None \<Rightarrow> [] | Some n \<Rightarrow> n),
            t_tailscale = None, t_instances = []\<rparr>"
        have ts: "t_slug t = slugify (sanitize name)"
          by (simp add: t_def)
        have "stored_doc (snd (createTenantHandler e body w)) = stored_doc (snd (addTenant e t w))"
          using None False \<open>b_name body = Some name\<close>
          by (simp add: createTenantHandler_def Let_def g t_def split: prod.splits)
        then show ?thesis
          using slugs_of_update [OF fresh [OF None] uniq ts, of "t_id t"]
          by (simp add: add stored_doc_save)
      qed
    qed
  qed
qed

lemma createTenantHandler_refuses_duplicate:
  assumes stored: "files w STORE_PATH = Some \<lparr>readable = True, content = Json d\<rparr>"
    and cur: "\<not> needs_migration d"
    and name: "b_name body = Some name"
    and clean: "sanitize name \<noteq> []"
    and dup: "slugify (sanitize name) \<in> set (slugs_of d)"
  shows "createTenantHandler e body w =
     (Failure 409
        (''A tenant with slug '' @ dq @ slugify (sanitize name) @ dq @ '' already exists.''), w)"
proof -
  obtain ts where g: "getAllTenants e w = (ts, w)" and sl: "map ts_slug ts = slugs_of d"
    using getAllTenants_current [OF stored cur, of e] by (metis prod.collapse)
  have "\<exists>x \<in> set ts. ts_slug x = slugify (sanitize name)"
    using dup sl by (metis (no_types, lifting) image_iff list.set_map)
  then obtain x where "find (\<lambda>t. ts_slug t = slugify (sanitize name)) ts = Some x"
    using find_Some_iff_ex [of "\<lambda>t. ts_slug t = slugify (sanitize name)" ts] by blast
  then show ?thesis
    using name clean by (auto simp add: createTenantHandler_def Let_def g sanitize_def)
qed

text \<open>
  Claim C2: no registry-mutating operation leaves two tenants with one slug; the rename of a
  tenant update enforces this as the creation of a tenant does.  The creation handler looks
  the slug up before it adds; the update handler recomputes the slug and stores it without
  any look-up.  Renaming the tenant \<open>Acme\<close> to \<open>Default\<close> in a registry whose slugs are
  unique is answered with success and leaves two tenants with the slug \<open>default\<close>.
\<close>

theorem update_tenant_duplicates_slug:
  "slugs_unique ex_doc2
   \<and> fst (updateTenantHandler ex_env ''t1'' (ex_body ''Default'')
            ex_registry)
       = TenantUpdated ''t1'' ''Default'' ''default'' []
   \<and> map_option slugs_of
        (stored_doc (snd (updateTenantHandler ex_env ''t1'' (ex_body ''Default'')
                           ex_registry)))
       = Some [''default'', ''default'']"
  by code_simp

section \<open>Migration\<close>



section \<open>A corrupt registry file\<close>

lemma copyFileSync_on_good_disk [simp]:
  "copyFileSync_on good_disk src dst w = copyFileSync src dst w"
  by (simp add: copyFileSync_on_def good_disk_def)

lemma save_on_good_disk: "save_on good_disk e d w = (None, save e d w)"
  by (simp add: save_on_def save_def Let_def) (simp add: good_disk_def)

lemma load_on_good_disk: "load_on good_disk e w = (Inr (fst (load e w)), snd (load e w))"
  by (auto simp add: load_on_def load_def save_on_good_disk Let_def
        split: option.splits fcontent.splits)

lemma save_on_refused:
  assumes "refuses DATA_DIR \<or> refuses tmpPath \<or> refuses STORE_PATH"
  shows "fst (save_on refuses e d w) =
           Some (write_error (if refuses DATA_DIR then DATA_DIR
                              else if refuses tmpPath then tmpPath else STORE_PATH))"
    and "files (snd (save_on refuses e d w)) STORE_PATH = files w STORE_PATH"
    and "files (snd (save_on refuses e d w)) (timestamp_bakPath (nowISO e)) =
           (case readFileSync STORE_PATH w of
              None \<Rightarrow> files w (timestamp_bakPath (nowISO e))
            | Some c \<Rightarrow>
                if refuses DATA_DIR \<or> refuses (timestamp_bakPath (nowISO e))
                then files w (timestamp_bakPath (nowISO e))
                else Some \<lparr>readable = True, content = c\<rparr>)"
  using assms
  by (auto simp add: save_on_def copyFileSync_on_def Let_def fs_defs split: option.splits)

lemma save_on_taken:
  assumes "\<not> refuses DATA_DIR" "\<not> refuses tmpPath" "\<not> refuses STORE_PATH"
  shows "fst (save_on refuses e d w) = None"
    and "files (snd (save_on refuses e d w)) STORE_PATH
           = Some \<lparr>readable = True, content = Json d\<rparr>"
    and "fs_ops (snd (save_on refuses e d w)) =
           fs_ops w
             @ (if readFileSync STORE_PATH w \<noteq> None \<and> \<not> refuses (timestamp_bakPath (nowISO e))
                then [CopyFile STORE_PATH (timestamp_bakPath (nowISO e))] else [])
             @ [WriteFile tmpPath, RenameFile tmpPath STORE_PATH]"
    and "files (snd (save_on refuses e d w)) (timestamp_bakPath (nowISO e)) =
           (case readFileSync STORE_PATH w of
              None \<Rightarrow> files w (timestamp_bakPath (nowISO e))
            | Some c \<Rightarrow>
                if refuses (timestamp_bakPath (nowISO e))
                then files w (timestamp_bakPath (nowISO e))
                else Some \<lparr>readable = True, content = c\<rparr>)"
  using assms
  by (auto simp add: save_on_def copyFileSync_on_def Let_def fs_defs split: option.splits)

lemma load_on_no_document:
  assumes "\<not> (\<exists>d. readFileSync STORE_PATH w = Some (Json d))"
  shows "load_on refuses e w =
           (case save_on refuses e (emptyStore e) w of
              (Some err, w') \<Rightarrow> (Inl err, w')
            | (None, w') \<Rightarrow>
                (Inr (emptyStore e),
                 console_log ''[store] Initialized new fleet store with Default tenant.'' w'))"
  using assms
  by (auto simp add: load_on_def Let_def split: option.splits fcontent.splits prod.splits)

text \<open>
  Claim C9, as stated: when the registry file exists but cannot be read or parsed, \<open>load\<close>
  does not raise, and replaces the file by a fresh document.  In the example the registry
  file holds text that is no JSON and the disk does not let the temporary file of \<open>save\<close>
  be written: \<open>load\<close> raises the error of that write, and the registry file is left as it
  was.
\<close>

theorem load_raises_when_write_refused:
  "fst (load_on tmp_refused ex_env ex_corrupt)
     = Inl ''Error: EACCES: permission denied, /data/fleet.json.tmp''
   \<and> files (snd (load_on tmp_refused ex_env ex_corrupt)) ''/data/fleet.json''
     = Some \<lparr>readable = True, content = Unparsable ''{oops''\<rparr>"
  by (simp add: load_on_def save_on_def copyFileSync_on_def tmp_refused_def ex_corrupt_def
        ex_world_def write_error_def fs_defs path_defs Let_def)

text \<open>
  Claim C9, amended: when the registry file exists but cannot be read or parsed, \<open>load\<close>
  does what it does for an absent file.  When the disk takes the directory
  creation, the write of the temporary file and the rename of \<open>save\<close>, \<open>load\<close> does not
  raise: it returns the fresh version-2 document with the single tenant Default (slug
  \<open>default\<close>, no instances) and writes that document over the canonical path at once.  When
  the disk refuses one of the three, \<open>load\<close> raises the error of that operation, and the
  registry file stays as it was.  Of the old content only the time-stamped backup of \<open>save\<close>
  remains: it is taken when the file can be read and the disk takes the copy, and no
  pre-migration backup is made.  On a disk that takes every write \<open>load_on\<close> is \<open>load\<close>.
\<close>

theorem load_on_corrupt_registry:
  assumes there: "files w STORE_PATH = Some n"
    and corrupt: "\<not> readable n \<or> (\<exists>raw. content n = Unparsable raw)"
  shows "(case load_on refuses e w of (r, w') \<Rightarrow>
            r = fst (load_on refuses e (w\<lparr>files := (files w)(STORE_PATH := None)\<rparr>))
          \<and> (if refuses DATA_DIR \<or> refuses tmpPath \<or> refuses STORE_PATH
              then r = Inl (write_error (if refuses DATA_DIR then DATA_DIR
                                         else if refuses tmpPath then tmpPath else STORE_PATH))
                 \<and> files w' STORE_PATH = Some n
              else r = Inr (emptyStore e)
                 \<and> version (emptyStore e) = Some 2
                 \<and> (\<exists>k t. tenants (emptyStore e) = [(k, t)] \<and> t_name t = ''Default''
                         \<and> t_slug t = ''default'' \<and> t_instances t = [])
                 \<and> files w' STORE_PATH
                     = Some \<lparr>readable = True, content = Json (emptyStore e)\<rparr>
                 \<and> fs_ops w' = fs_ops w
                     @ (if readable n \<and> \<not> refuses (timestamp_bakPath (nowISO e))
                        then [CopyFile STORE_PATH (timestamp_bakPath (nowISO e))] else [])
                     @ [WriteFile tmpPath, RenameFile tmpPath STORE_PATH])
          \<and> (if readable n \<and> \<not> refuses DATA_DIR \<and> \<not> refuses (timestamp_bakPath (nowISO e))
              then files w' (timestamp_bakPath (nowISO e))
                     = Some \<lparr>readable = True, content = content n\<rparr>
              else files w' (timestamp_bakPath (nowISO e))
                     = files w (timestamp_bakPath (nowISO e))))
       \<and> load_on good_disk e w = (Inr (fst (load e w)), snd (load e w))"
proof -
  let ?bak = "timestamp_bakPath (nowISO e)"
  let ?absent = "w\<lparr>files := (files w)(STORE_PATH := None)\<rparr>"
  have nodoc: "\<not> (\<exists>d. readFileSync STORE_PATH w = Some (Json d))"
    using there corrupt by (auto simp: readFileSync_def)
  have nodoc': "\<not> (\<exists>d. readFileSync STORE_PATH ?absent = Some (Json d))"
    by (simp add: readFileSync_def)
  have rd: "readFileSync STORE_PATH w = (if readable n then Some (content n) else None)"
    using there by (simp add: readFileSync_def)
  obtain thrown ws where sv: "save_on refuses e (emptyStore e) w = (thrown, ws)"
    by (metis prod.exhaust)
  obtain thrown' ws' where sv': "save_on refuses e (emptyStore e) ?absent = (thrown', ws')"
    by (metis prod.exhaust)
  have shape: "version (emptyStore e) = Some 2"
    "\<exists>k t. tenants (emptyStore e) = [(k, t)] \<and> t_name t = ''Default''
        \<and> t_slug t = ''default'' \<and> t_instances t = []"
    by (simp_all add: emptyStore_def)
  have ld: "load_on refuses e w =
              (case thrown of
                 Some err \<Rightarrow> (Inl err, ws)
               | None \<Rightarrow>
                   (Inr (emptyStore e),
                    console_log ''[store] Initialized new fleet store with Default tenant.'' ws))"
    by (simp add: load_on_no_document [OF nodoc] sv split: option.splits)
  have ld': "fst (load_on refuses e ?absent) =
               (case thrown' of Some err \<Rightarrow> Inl err | None \<Rightarrow> Inr (emptyStore e))"
    by (simp add: load_on_no_document [OF nodoc'] sv' split: option.splits)
  have "case load_on refuses e w of (r, w') \<Rightarrow>
            r = fst (load_on refuses e ?absent)
          \<and> (if refuses DATA_DIR \<or> refuses tmpPath \<or> refuses STORE_PATH
              then r = Inl (write_error (if refuses DATA_DIR then DATA_DIR
                                         else if refuses tmpPath then tmpPath else STORE_PATH))
                 \<and> files w' STORE_PATH = Some n
              else r = Inr (emptyStore e)
                 \<and> version (emptyStore e) = Some 2
                 \<and> (\<exists>k t. tenants (emptyStore e) = [(k, t)] \<and> t_name t = ''Default''
                         \<and> t_slug t = ''default'' \<and> t_instances t = [])
                 \<and> files w' STORE_PATH
                     = Some \<lparr>readable = True, content = Json (emptyStore e)\<rparr>
                 \<and> fs_ops w' = fs_ops w
                     @ (if readable n \<and> \<not> refuses ?bak
                        then [CopyFile STORE_PATH ?bak] else [])
                     @ [WriteFile tmpPath, RenameFile tmpPath STORE_PATH])
          \<and> (if readable n \<and> \<not> refuses DATA_DIR \<and> \<not> refuses ?bak
              then files w' ?bak = Some \<lparr>readable = True, content = content n\<rparr>
              else files w' ?bak = files w ?bak)"
  proof (cases "refuses DATA_DIR \<or> refuses tmpPath \<or> refuses STORE_PATH")
    case True
    have t: "thrown = Some (write_error (if refuses DATA_DIR then DATA_DIR
                                         else if refuses tmpPath then tmpPath else STORE_PATH))"
      and t': "thrown' = thrown"
      using save_on_refused(1) [OF True, of e "emptyStore e" w]
        save_on_refused(1) [OF True, of e "emptyStore e" ?absent] sv sv' by simp_all
    have f: "files ws STORE_PATH = Some n"
      using save_on_refused(2) [OF True, of e "emptyStore e" w] sv there by simp
    have b: "files ws ?bak =
               (if readable n \<and> \<not> refuses DATA_DIR \<and> \<not> refuses ?bak
                then Some \<lparr>readable = True, content = content n\<rparr> else files w ?bak)"
      using save_on_refused(3) [OF True, of e "emptyStore e" w] sv rd by auto
    show ?thesis
      using True f b by (simp add: ld ld' t t')
  next
    case False
    then have ok: "\<not> refuses DATA_DIR" "\<not> refuses tmpPath" "\<not> refuses STORE_PATH"
      by simp_all
    have t: "thrown = None" and t': "thrown' = None"
      using save_on_taken(1) [OF ok, of e "emptyStore e" w]
        save_on_taken(1) [OF ok, of e "emptyStore e" ?absent] sv sv' by simp_all
    have f: "files ws STORE_PATH = Some \<lparr>readable = True, content = Json (emptyStore e)\<rparr>"
      using save_on_taken(2) [OF ok, of e "emptyStore e" w] sv by simp
    have o: "fs_ops ws = fs_ops w
               @ (if readable n \<and> \<not> refuses ?bak then [CopyFile STORE_PATH ?bak] else [])
               @ [WriteFile tmpPath, RenameFile tmpPath STORE_PATH]"
      using save_on_taken(3) [OF ok, of e "emptyStore e" w] sv rd by auto
    have b: "files ws ?bak =
               (if readable n \<and> \<not> refuses ?bak
                then Some \<lparr>readable = True, content = content n\<rparr> else files w ?bak)"
      using save_on_taken(4) [OF ok, of e "emptyStore e" w] sv rd by auto
    show ?thesis
      using ok f o b shape by (simp add: ld ld' t t' console_log_def)
  qed
  then show ?thesis
    by (simp add: load_on_good_disk)
qed

theorem load_on_corrupt_registry_witness:
  "fst (load_on good_disk ex_env ex_corrupt) =
     Inr \<lparr>version = Some 2,
          tenants =
            [(''u-store'',
              \<lparr>t_id = ''u-store'', t_name = ''Default'', t_slug = ''default'',
               t_createdAt = ''2024-05-01T10:20:30.456Z'', t_notes = [], t_tailscale = None,
               t_instances = []\<rparr>)],
          instances = None\<rparr>
   \<and> fs_ops (snd (load_on good_disk ex_env ex_corrupt)) =
       [CopyFile ''/data/fleet.json'' ''/data/fleet.bak-2024-05-01T10-20-30-456Z.json'',
        WriteFile ''/data/fleet.json.tmp'',
        RenameFile ''/data/fleet.json.tmp'' ''/data/fleet.json'']
   \<and> files (snd (load_on good_disk ex_env ex_corrupt))
         ''/data/fleet.bak-2024-05-01T10-20-30-456Z.json''
       = Some \<lparr>readable = True, content = Unparsable ''{oops''\<rparr>
   \<and> load_on good_disk ex_env ex_corrupt
       = (Inr (fst (load ex_env ex_corrupt)), snd (load ex_env ex_corrupt))"
proof -
  have there:
    "files ex_corrupt STORE_PATH = Some \<lparr>readable = True, content = Unparsable ''{oops''\<rparr>"
    by (simp add: ex_corrupt_def ex_world_def)
  have corrupt:
    "\<not> readable \<lparr>readable = True, content = Unparsable ''{oops''\<rparr>
     \<or> (\<exists>raw. content \<lparr>readable = True, content = Unparsable ''{oops''\<rparr> = Unparsable raw)"
    by simp
  have names: "STORE_PATH = ''/data/fleet.json''" "tmpPath = ''/data/fleet.json.tmp''"
    "timestamp_bakPath (nowISO ex_env) = ''/data/fleet.bak-2024-05-01T10-20-30-456Z.json''"
    by (simp_all add: path_defs ex_env_def)
  have fresh: "emptyStore ex_env =
     \<lparr>version = Some 2,
      tenants =
        [(''u-store'',
          \<lparr>t_id = ''u-store'', t_name = ''Default'', t_slug = ''default'',
           t_createdAt = ''2024-05-01T10:20:30.456Z'', t_notes = [], t_tailscale = None,
           t_instances = []\<rparr>)],
      instances = None\<rparr>"
    by (simp add: emptyStore_def ex_env_def)
  have start: "fs_ops ex_corrupt = []"
    by (simp add: ex_corrupt_def ex_world_def)
  show ?thesis
    using load_on_corrupt_registry [OF there corrupt, where refuses = good_disk and e = ex_env]
    by (auto simp add: load_on_good_disk good_disk_def names fresh start)
qed

section \<open>Rate limiting\<close>

lemma railwayGql_retries_every_429:
  "railwayGql (map rate_limited hs @ [answered d]) =
     (Returned d,
      map (\<lambda>h. map_option (\<lambda>s. s * 1000)
                 (parseInt (case h of None \<Rightarrow> ''5'' | Some x \<Rightarrow> if x = [] then ''5'' else x))) hs,
      Suc (length hs))"
  by (induction hs) (simp_all add: rate_limited_def answered_def ok_def)

text \<open>
  Claim C1: a 429 answer triggers exactly one wait-and-retry, after the interval of
  \<open>Retry-After\<close> (5 seconds without the header), and a second 429 ends the call with a
  failure.  The waits are as claimed, but the retry is a recursive call of \<open>railwayGql\<close>
  itself, so every 429 is retried: after two 429 answers the client sends a third request
  and returns its data.
\<close>

theorem railwayGql_retries_second_429:
  "railwayGql [rate_limited (Some ''2''), rate_limited None, answered (VolumeCreateData ''v1'')]
     = (Returned (VolumeCreateData ''v1''), [Some 2000, Some 5000], 3)"
  by code_simp

section \<open>Status resolution\<close>

lemma is_set_truthy: "is_set v = truthy_opt v"
  by (cases v rule: is_set.cases) (simp_all add: truthy_opt_def)

lemma compositeStatus_table:
  "compositeStatus dep health = spec_status (dep_state_of dep) (health_view_of health)"
proof (cases dep)
  case None
  then show ?thesis
    by (simp add: compositeStatus_def dep_state_of_def)
next
  case (Some d)
  have other: "compositeStatus dep health = spec_status (dep_state_of dep) h"
    if "d_status d \<noteq> ''SUCCESS''" for h
    using that Some by (simp add: compositeStatus_def dep_state_of_def)
  have success: "compositeStatus dep health = spec_status Success (health_view_of health)"
    if ok: "d_status d = ''SUCCESS''"
  proof (cases health)
    case (JObj kvs)
    show ?thesis
    proof (cases "is_set (map_of kvs ''configured'')")
      case False
      then show ?thesis
        using ok Some JObj by (simp add: compositeStatus_def is_set_truthy)
    next
      case True
      then show ?thesis
        using ok Some JObj
        by (auto simp add: compositeStatus_def is_set_truthy truthy_opt_def
              split: option.splits jsval.splits)
    qed
  qed (use ok Some in \<open>simp_all add: compositeStatus_def truthy_opt_def\<close>)
  show ?thesis
  proof (cases "d_status d = ''SUCCESS''")
    case True
    then show ?thesis
      using success Some by (simp add: dep_state_of_def)
  next
    case False
    then show ?thesis
      by (rule other)
  qed
qed

lemma probeHealth_calls:
  "calls (snd (probeHealth probe dep domain w)) =
     calls w @ (case probed_domain dep domain of None \<Rightarrow> [] | Some d \<Rightarrow> [HealthProbe d])"
  by (auto simp add: probeHealth_def probed_domain_def is_success_def Let_def
        split: option.splits probe_result.splits)

lemma probeHealth_health:
  "fst (probeHealth probe dep domain w) =
     (case probed_domain dep domain of
        None \<Rightarrow> JNull
      | Some d \<Rightarrow> (case probe d of OkJson j \<Rightarrow> j | _ \<Rightarrow> JNull))"
  by (auto simp add: probeHealth_def probed_domain_def is_success_def Let_def
        split: option.splits probe_result.splits)

lemma probeHealth_other [simp]:
  "statusCache (snd (probeHealth probe dep domain w)) = statusCache w"
  "files (snd (probeHealth probe dep domain w)) = files w"
  by (auto simp add: probeHealth_def Let_def split: option.splits probe_result.splits)

lemma queryControlPlane_calls:
  "calls (snd (queryControlPlane cp inst w)) =
     calls w
       @ Gql (DEPLOYMENTS_QUERY (serviceId (i_railway inst)) (environmentId (i_railway inst)))
       # (case cp (DEPLOYMENTS_QUERY (serviceId (i_railway inst))
                     (environmentId (i_railway inst))) of
            Inl err \<Rightarrow> []
          | Inr depData \<Rightarrow> [Gql (PROJECT_QUERY (projectId (i_railway inst)))])"
  by (auto simp add: queryControlPlane_def callGql_def Let_def split: sum.splits)

lemma queryControlPlane_other [simp]:
  "statusCache (snd (queryControlPlane cp inst w)) = statusCache w"
  "files (snd (queryControlPlane cp inst w)) = files w"
  by (auto simp add: queryControlPlane_def callGql_def Let_def split: sum.splits)

lemma getInstanceStatus_unfold:
  "getInstanceStatus cp probe now now' inst w =
     (case (case statusCache w (i_id inst) of
              None \<Rightarrow> None
            | Some cached \<Rightarrow>
                if now - fetchedAt cached < STATUS_CACHE_TTL then Some (data cached) else None) of
        Some hit \<Rightarrow> (hit, w)
      | None \<Rightarrow>
          (let ((dep, domain), w1) = queryControlPlane cp inst w;
               (health, w2) = probeHealth probe dep domain w1;
               statusData =
                 \<lparr>sd_deployment = dep, sd_domain = domain, sd_health = health,
                  sd_status = compositeStatus dep health\<rparr>
           in (statusData,
               w2\<lparr>statusCache :=
                    (statusCache w2)(i_id inst \<mapsto> \<lparr>data = statusData, fetchedAt = now'\<rparr>)\<rparr>)))"
  by (auto simp add: getInstanceStatus_def statusStep_def afterQueries_def resolveStatus_def
        queryControlPlane_def probeHealth_def callGql_def Let_def
        split: option.splits sum.splits probe_result.splits)

lemma eventLoop_alone:
  "eventLoop cp probe inst [(0, now), (0, now'), (0, now'), (0, now')] [NotStarted] w =
     ([Settled (fst (getInstanceStatus cp probe now now' inst w))],
      snd (getInstanceStatus cp probe now now' inst w))"
  by (auto simp add: getInstanceStatus_def statusStep_def afterQueries_def resolveStatus_def
        Let_def split: option.splits sum.splits probe_result.splits)

lemma getInstanceStatus_miss:
  assumes "cache_miss now inst w"
  shows "getInstanceStatus cp probe now now' inst w =
     (let ((dep, domain), w1) = queryControlPlane cp inst w;
          (health, w2) = probeHealth probe dep domain w1;
          statusData =
            \<lparr>sd_deployment = dep, sd_domain = domain, sd_health = health,
             sd_status = compositeStatus dep health\<rparr>
      in (statusData,
          w2\<lparr>statusCache :=
               (statusCache w2)(i_id inst \<mapsto> \<lparr>data = statusData, fetchedAt = now'\<rparr>)\<rparr>))"
  using assms by (auto simp add: getInstanceStatus_unfold cache_miss_def split: option.splits)

lemma getInstanceStatus_hit:
  assumes "statusCache w (i_id inst) = Some c" "now - fetchedAt c < STATUS_CACHE_TTL"
  shows "getInstanceStatus cp probe now now' inst w = (data c, w)"
  using assms by (simp add: getInstanceStatus_unfold)

text \<open>
  Claim C6: the composite status follows the decision table of the specification, first
  match first, whatever JSON the health probe answered.  Row by row: no deployment is
  \<open>no-deployment\<close>; \<open>BUILDING\<close> is \<open>building\<close>, \<open>DEPLOYING\<close> is \<open>deploying\<close>, \<open>FAILED\<close> and
  \<open>CRASHED\<close> are \<open>failed\<close>, whatever the health data; \<open>SUCCESS\<close> without health data is
  \<open>unhealthy\<close>, with a payload whose \<open>configured\<close> is false (or missing) it is
  \<open>needs-setup\<close> whatever the gateway, with \<open>{configured: true, gateway: {reachable:
  true}}\<close> it is \<open>running\<close>, and with \<open>configured\<close> true and a gateway that is unreachable (or
  missing) it is \<open>unhealthy\<close>; \<open>REMOVED\<close> is \<open>stopped\<close>; a query error and any other state
  are \<open>unknown\<close>.  On a cache miss the snapshot carries the status computed from the
  deployment and the health data of this run, and the health probe is sent exactly when a
  domain was found and the deployment state is \<open>SUCCESS\<close>; any other probe result than a
  success answer counts as no health data.
\<close>

theorem status_follows_decision_table:
  assumes miss: "cache_miss now inst w"
    and q: "queryControlPlane cp inst w = ((dep', domain), w1)"
  shows "compositeStatus dep health = spec_status (dep_state_of dep) (health_view_of health)
   \<and> compositeStatus (Some (d\<lparr>d_status := ''SUCCESS''\<rparr>)) healthy_payload = ''running''
   \<and> compositeStatus (Some (d\<lparr>d_status := ''SUCCESS''\<rparr>)) JNull = ''unhealthy''
   \<and> compositeStatus (Some (d\<lparr>d_status := ''BUILDING''\<rparr>)) health = ''building''
   \<and> compositeStatus None health = ''no-deployment''
   \<and> compositeStatus (Some (d\<lparr>d_status := ''DEPLOYING''\<rparr>)) health = ''deploying''
   \<and> compositeStatus (Some (d\<lparr>d_status := ''FAILED''\<rparr>)) health = ''failed''
   \<and> compositeStatus (Some (d\<lparr>d_status := ''CRASHED''\<rparr>)) health = ''failed''
   \<and> compositeStatus (Some (d\<lparr>d_status := ''SUCCESS''\<rparr>)) (health_payload False reachable)
       = ''needs-setup''
   \<and> compositeStatus (Some (d\<lparr>d_status := ''SUCCESS''\<rparr>))
         (JObj [(''gateway'', JObj [(''reachable'', JBool True)])]) = ''needs-setup''
   \<and> compositeStatus (Some (d\<lparr>d_status := ''SUCCESS''\<rparr>)) (health_payload True True)
       = ''running''
   \<and> compositeStatus (Some (d\<lparr>d_status := ''SUCCESS''\<rparr>)) (health_payload True False)
       = ''unhealthy''
   \<and> compositeStatus (Some (d\<lparr>d_status := ''SUCCESS''\<rparr>)) (JObj [(''configured'', JBool True)])
       = ''unhealthy''
   \<and> compositeStatus (Some (d\<lparr>d_status := ''SUCCESS''\<rparr>))
         (JObj [(''configured'', JBool True), (''gateway'', JNull)]) = ''unhealthy''
   \<and> compositeStatus (Some (d\<lparr>d_status := ''REMOVED''\<rparr>)) health = ''stopped''
   \<and> compositeStatus (Some (unknownDeployment err)) health = ''unknown''
   \<and> compositeStatus (Some (d\<lparr>d_status := ''SLEEPING''\<rparr>)) health = ''unknown''
   \<and> (case getInstanceStatus cp probe now now' inst w of (sd, w') \<Rightarrow>
          sd_deployment sd = dep' \<and> sd_domain sd = domain
        \<and> sd_status sd = compositeStatus dep' (sd_health sd)
        \<and> sd_health sd =
            (case probed_domain dep' domain of
               None \<Rightarrow> JNull
             | Some d \<Rightarrow> (case probe d of OkJson j \<Rightarrow> j | _ \<Rightarrow> JNull))
        \<and> calls w' =
            calls w1
              @ (case probed_domain dep' domain of None \<Rightarrow> [] | Some d \<Rightarrow> [HealthProbe d]))"
proof -
  have scen:
    "compositeStatus (Some (d\<lparr>d_status := ''SUCCESS''\<rparr>)) healthy_payload = ''running''"
    "compositeStatus (Some (d\<lparr>d_status := ''SUCCESS''\<rparr>)) JNull = ''unhealthy''"
    "compositeStatus (Some (d\<lparr>d_status := ''BUILDING''\<rparr>)) health = ''building''"
    by (simp_all add: compositeStatus_def healthy_payload_def truthy_opt_def)
  have early:
    "compositeStatus None health = ''no-deployment''"
    "compositeStatus (Some (d\<lparr>d_status := ''DEPLOYING''\<rparr>)) health = ''deploying''"
    "compositeStatus (Some (d\<lparr>d_status := ''FAILED''\<rparr>)) health = ''failed''"
    "compositeStatus (Some (d\<lparr>d_status := ''CRASHED''\<rparr>)) health = ''failed''"
    by (simp_all add: compositeStatus_def)
  have unconfigured:
    "compositeStatus (Some (d\<lparr>d_status := ''SUCCESS''\<rparr>)) (health_payload False reachable)
       = ''needs-setup''"
    "compositeStatus (Some (d\<lparr>d_status := ''SUCCESS''\<rparr>))
         (JObj [(''gateway'', JObj [(''reachable'', JBool True)])]) = ''needs-setup''"
    by (simp_all add: compositeStatus_def health_payload_def truthy_opt_def)
  have gateway:
    "compositeStatus (Some (d\<lparr>d_status := ''SUCCESS''\<rparr>)) (health_payload True True)
       = ''running''"
    "compositeStatus (Some (d\<lparr>d_status := ''SUCCESS''\<rparr>)) (health_payload True False)
       = ''unhealthy''"
    "compositeStatus (Some (d\<lparr>d_status := ''SUCCESS''\<rparr>)) (JObj [(''configured'', JBool True)])
       = ''unhealthy''"
    "compositeStatus (Some (d\<lparr>d_status := ''SUCCESS''\<rparr>))
         (JObj [(''configured'', JBool True), (''gateway'', JNull)]) = ''unhealthy''"
    by (simp_all add: compositeStatus_def health_payload_def truthy_opt_def)
  have late:
    "compositeStatus (Some (d\<lparr>d_status := ''REMOVED''\<rparr>)) health = ''stopped''"
    "compositeStatus (Some (unknownDeployment err)) health = ''unknown''"
    "compositeStatus (Some (d\<lparr>d_status := ''SLEEPING''\<rparr>)) health = ''unknown''"
    by (simp_all add: compositeStatus_def unknownDeployment_def)
  obtain h w2 where p: "probeHealth probe dep' domain w1 = (h, w2)"
    by (metis prod.exhaust)
  have hv:
    "h = (case probed_domain dep' domain of
            None \<Rightarrow> JNull
          | Some d \<Rightarrow> (case probe d of OkJson j \<Rightarrow> j | _ \<Rightarrow> JNull))"
    using probeHealth_health [of probe dep' domain w1] p by simp
  have cs:
    "calls w2 =
       calls w1 @ (case probed_domain dep' domain of None \<Rightarrow> [] | Some d \<Rightarrow> [HealthProbe d])"
    using probeHealth_calls [of probe dep' domain w1] p by simp
  have run:
    "(case getInstanceStatus cp probe now now' inst w of (sd, w') \<Rightarrow>
          sd_deployment sd = dep' \<and> sd_domain sd = domain
        \<and> sd_status sd = compositeStatus dep' (sd_health sd)
        \<and> sd_health sd =
            (case probed_domain dep' domain of
               None \<Rightarrow> JNull
             | Some d \<Rightarrow> (case probe d of OkJson j \<Rightarrow> j | _ \<Rightarrow> JNull))
        \<and> calls w' =
            calls w1
              @ (case probed_domain dep' domain of None \<Rightarrow> [] | Some d \<Rightarrow> [HealthProbe d]))"
    using hv cs by (simp add: getInstanceStatus_miss [OF miss] q p Let_def)
  show ?thesis
    using scen early unconfigured gateway late run compositeStatus_table by blast
qed

theorem status_follows_decision_table_witness:
  "sd_status (fst (getInstanceStatus ex_cp ex_probe 0 1200 (ex_instance ''i1'' ''one'' ''p1'')
                     ex_registry)) = ''running''
   \<and> calls (snd (getInstanceStatus ex_cp ex_probe 0 1200 (ex_instance ''i1'' ''one'' ''p1'')
                     ex_registry))
      = [Gql (DEPLOYMENTS_QUERY ''svc-i1'' ''env-i1''), Gql (PROJECT_QUERY ''p1''),
         HealthProbe ''one.up.railway.app'']"
proof -
  have miss: "cache_miss 0 (ex_instance ''i1'' ''one'' ''p1'') ex_registry"
    by (simp add: cache_miss_def ex_world_def ex_registry_def)
  have q:
    "queryControlPlane ex_cp (ex_instance ''i1'' ''one'' ''p1'') ex_registry
     = ((Some \<lparr>d_id = Some ''dep-1'', d_status = ''SUCCESS'',
               d_createdAt = Some ''2024-04-01T00:00:00.000Z'', d_error = None\<rparr>,
         Some ''one.up.railway.app''),
        ex_registry
          \<lparr>calls := [Gql (DEPLOYMENTS_QUERY ''svc-i1'' ''env-i1''), Gql (PROJECT_QUERY ''p1'')]\<rparr>)"
    by (simp add: queryControlPlane_def callGql_def ex_cp_def ex_instance_def ex_world_def
          ex_registry_def latestDeployment_def discoverDomain_def first_domain_def)
  show ?thesis
    using status_follows_decision_table [OF miss q, where probe = ex_probe and now' = 1200
        and dep = None and health = JNull and d = "unknownDeployment []" and reachable = True
        and err = "[]"]
    by (auto simp add: probed_domain_def is_success_def ex_probe_def compositeStatus_def
          healthy_payload_def truthy_opt_def ex_world_def ex_registry_def split: prod.splits)
qed

section \<open>Restart and redeploy\<close>

lemma getTenant_current:
  "files w STORE_PATH = Some \<lparr>readable = True, content = Json d\<rparr> \<Longrightarrow>
   \<not> needs_migration d \<Longrightarrow> getTenant e tid w = (map_of (tenants d) tid, w)"
  by (simp add: getTenant_def load_current)

lemma getInstance_current:
  "files w STORE_PATH = Some \<lparr>readable = True, content = Json d\<rparr> \<Longrightarrow>
   \<not> needs_migration d \<Longrightarrow>
   getInstance e tid iid w =
     ((case map_of (tenants d) tid of None \<Rightarrow> None | Some t \<Rightarrow> map_of (t_instances t) iid), w)"
  by (simp add: getInstance_def getTenant_current split: option.splits)

text \<open>
  Claim C10: the restart and the redeploy operation are the same operation.  The two
  handlers agree on every request and world; for an instance that is found both send the
  redeploy mutation with its service id and environment id, and when the mutation succeeds
  they evict its entry from the status cache (a mutation that fails is answered with 500
  and leaves the cache as it is, in both).
\<close>

theorem restart_is_redeploy:
  assumes found: "getInstance e tid iid w = (Some inst, w1)"
  shows "(\<forall>tid' iid' w'. restartHandler cp e tid' iid' w' = redeployHandler cp e tid' iid' w')
   \<and> restartHandler cp e tid iid w =
       (case cp (redeploy_op inst) of
          Inl err \<Rightarrow> (Failure 500 err, w1\<lparr>calls := calls w1 @ [Gql (redeploy_op inst)]\<rparr>)
        | Inr d \<Rightarrow>
            (Message ''Redeployment triggered.'',
             w1\<lparr>calls := calls w1 @ [Gql (redeploy_op inst)],
                statusCache := (statusCache w1)(i_id inst := None)\<rparr>))
   \<and> redeployHandler cp e tid iid w =
       (case cp (redeploy_op inst) of
          Inl err \<Rightarrow> (Failure 500 err, w1\<lparr>calls := calls w1 @ [Gql (redeploy_op inst)]\<rparr>)
        | Inr d \<Rightarrow>
            (Message ''Redeployment triggered.'',
             w1\<lparr>calls := calls w1 @ [Gql (redeploy_op inst)],
                statusCache := (statusCache w1)(i_id inst := None)\<rparr>))"
proof -
  have same: "restartHandler cp e tid' iid' w' = redeployHandler cp e tid' iid' w'"
    for tid' iid' w'
    by (simp add: restartHandler_def redeployHandler_def)
  have r: "redeployHandler cp e tid iid w =
       (case cp (redeploy_op inst) of
          Inl err \<Rightarrow> (Failure 500 err, w1\<lparr>calls := calls w1 @ [Gql (redeploy_op inst)]\<rparr>)
        | Inr d \<Rightarrow>
            (Message ''Redeployment triggered.'',
             w1\<lparr>calls := calls w1 @ [Gql (redeploy_op inst)],
                statusCache := (statusCache w1)(i_id inst := None)\<rparr>))"
    using found
    by (simp add: redeployHandler_def redeploy_op_def callGql_def Let_def split: sum.splits)
  show ?thesis
    using same r by simp
qed

theorem restart_is_redeploy_witness:
  "statusCache ex_cached_world ''i1'' = Some ex_cache_entry
   \<and> restartHandler ex_cp ex_env ''t1'' ''i1'' ex_cached_world
       = redeployHandler ex_cp ex_env ''t1'' ''i1'' ex_cached_world
   \<and> fst (restartHandler ex_cp ex_env ''t1'' ''i1'' ex_cached_world)
       = Message ''Redeployment triggered.''
   \<and> calls (snd (restartHandler ex_cp ex_env ''t1'' ''i1'' ex_cached_world))
       = [Gql (SERVICE_INSTANCE_REDEPLOY ''svc-i1'' ''env-i1'')]
   \<and> statusCache (snd (restartHandler ex_cp ex_env ''t1'' ''i1'' ex_cached_world)) ''i1'' = None"
proof -
  have g: "getInstance ex_env ''t1'' ''i1'' ex_cached_world
             = (Some (ex_instance ''i1'' ''one'' ''p1''), ex_cached_world)"
    by (subst getInstance_current [where d = ex_doc2])
       (simp_all add: ex_cached_world_def ex_world_def ex_registry_def ex_doc2_def
          needs_migration_def ex_tenant_def)
  have a: "ex_cp (SERVICE_INSTANCE_REDEPLOY ''svc-i1'' ''env-i1'') = Inr NoData"
    by (simp add: ex_cp_def)
  have c: "calls ex_cached_world = []" "statusCache ex_cached_world ''i1'' = Some ex_cache_entry"
    by (simp_all add: ex_cached_world_def ex_world_def ex_registry_def)
  show ?thesis
    using restart_is_redeploy [OF g, of ex_cp] c
    by (simp add: a redeploy_op_def ex_instance_def)
qed

section \<open>The status cache\<close>

lemma ex_instance_sel:
  "i_id (ex_instance i n p) = i" "i_name (ex_instance i n p) = n"
  "projectId (i_railway (ex_instance i n p)) = p"
  "serviceId (i_railway (ex_instance i n p)) = ''svc-'' @ i"
  "environmentId (i_railway (ex_instance i n p)) = ''env-'' @ i"
  by (simp_all add: ex_instance_def)

lemma ex_first:
  "getInstanceStatus ex_cp ex_probe 0 1200 (ex_instance ''i1'' ''one'' ''p1'') ex_registry
     = (ex_running, ex_after_first)"
  by (simp add: ex_after_first_def ex_running_def getInstanceStatus_unfold queryControlPlane_def
        probeHealth_def callGql_def ex_cp_def ex_probe_def ex_instance_def ex_world_def
        ex_registry_def latestDeployment_def discoverDomain_def first_domain_def Let_def
        compositeStatus_def healthy_payload_def truthy_opt_def)

lemma ex_third:
  "getInstanceStatus down_cp dead_probe 31200 31300 (ex_instance ''i1'' ''one'' ''p1'')
       ex_after_first
     = (ex_unknown,
        ex_after_first
          \<lparr>calls := calls ex_after_first @ [Gql (DEPLOYMENTS_QUERY ''svc-i1'' ''env-i1'')],
           statusCache := [''i1'' \<mapsto> \<lparr>data = ex_unknown, fetchedAt = 31300\<rparr>]\<rparr>)"
  by (simp add: ex_after_first_def ex_running_def ex_unknown_def getInstanceStatus_unfold
        queryControlPlane_def probeHealth_def callGql_def down_cp_def ex_instance_def
        ex_world_def ex_registry_def Let_def STATUS_CACHE_TTL_def unknownDeployment_def
        compositeStatus_def)

lemma ex_restart:
  "restartHandler ex_cp ex_env ''t1'' ''i1'' ex_after_first
     = (Message ''Redeployment triggered.'',
        ex_after_first
          \<lparr>calls := calls ex_after_first @ [Gql (SERVICE_INSTANCE_REDEPLOY ''svc-i1'' ''env-i1'')],
           statusCache := Map.empty\<rparr>)"
proof -
  have g: "getInstance ex_env ''t1'' ''i1'' ex_after_first
             = (Some (ex_instance ''i1'' ''one'' ''p1''), ex_after_first)"
    by (subst getInstance_current [where d = ex_doc2])
       (simp_all add: ex_after_first_def ex_world_def ex_registry_def ex_doc2_def
          needs_migration_def ex_tenant_def)
  show ?thesis
    by (simp add: restartHandler_def g callGql_def ex_instance_sel ex_cp_def)
       (simp add: ex_after_first_def)
qed

text \<open>
  Claim C7, as stated: two status requests for one instance less than 30 seconds apart
  return the same snapshot and query the control plane once.  The example holds three pairs
  of status requests for one instance, each pair less than 30 seconds apart.
  Two requests that overlap: the first starts at time 0 and ends at 1200, the second starts
  at 500, before the first has stored its snapshot; each of them sends the deployment query
  and the project query, so the control plane is queried twice.  Two requests of which the
  first is answered from a cache entry that is a millisecond short of its 30 seconds: the
  second, two milliseconds later, finds the entry too old, queries the control plane and
  returns another snapshot than the first.  And two requests with a restart of the instance
  between them: the restart evicts the entry the first has stored, and the second queries
  the control plane again.
\<close>

theorem close_status_requests_differ:
  "fst (eventLoop ex_cp ex_probe (ex_instance ''i1'' ''one'' ''p1'')
          [(0, 0), (0, 400), (1, 500), (0, 800), (1, 900), (0, 1200), (1, 1300), (1, 1700)]
          [NotStarted, NotStarted] ex_registry)
     = [Settled ex_running, Settled ex_running]
   \<and> calls (snd (eventLoop ex_cp ex_probe (ex_instance ''i1'' ''one'' ''p1'')
          [(0, 0), (0, 400), (1, 500), (0, 800), (1, 900), (0, 1200), (1, 1300), (1, 1700)]
          [NotStarted, NotStarted] ex_registry))
     = [Gql (DEPLOYMENTS_QUERY ''svc-i1'' ''env-i1''), Gql (PROJECT_QUERY ''p1''),
        Gql (DEPLOYMENTS_QUERY ''svc-i1'' ''env-i1''), HealthProbe ''one.up.railway.app'',
        Gql (PROJECT_QUERY ''p1''), HealthProbe ''one.up.railway.app'']
   \<and> fst (getInstanceStatus ex_cp ex_probe 30999 31000 (ex_instance ''i1'' ''one'' ''p1'')
            ex_cached_world)
     = data ex_cache_entry
   \<and> snd (getInstanceStatus ex_cp ex_probe 30999 31000 (ex_instance ''i1'' ''one'' ''p1'')
            ex_cached_world)
     = ex_cached_world
   \<and> fst (getInstanceStatus ex_cp ex_probe 31001 32000 (ex_instance ''i1'' ''one'' ''p1'')
            ex_cached_world)
     = ex_running
   \<and> data ex_cache_entry \<noteq> ex_running
   \<and> calls (snd (getInstanceStatus ex_cp ex_probe 0 1200 (ex_instance ''i1'' ''one'' ''p1'')
                   ex_registry))
     = [Gql (DEPLOYMENTS_QUERY ''svc-i1'' ''env-i1''), Gql (PROJECT_QUERY ''p1''),
        HealthProbe ''one.up.railway.app'']
   \<and> calls (snd (getInstanceStatus ex_cp ex_probe 3000 3500 (ex_instance ''i1'' ''one'' ''p1'')
                   (snd (restartHandler ex_cp ex_env ''t1'' ''i1''
                           (snd (getInstanceStatus ex_cp ex_probe 0 1200
                                   (ex_instance ''i1'' ''one'' ''p1'') ex_registry))))))
     = [Gql (DEPLOYMENTS_QUERY ''svc-i1'' ''env-i1''), Gql (PROJECT_QUERY ''p1''),
        HealthProbe ''one.up.railway.app'',
        Gql (SERVICE_INSTANCE_REDEPLOY ''svc-i1'' ''env-i1''),
        Gql (DEPLOYMENTS_QUERY ''svc-i1'' ''env-i1''), Gql (PROJECT_QUERY ''p1''),
        HealthProbe ''one.up.railway.app'']"
proof -
  have loop:
    "eventLoop ex_cp ex_probe (ex_instance ''i1'' ''one'' ''p1'')
          [(0, 0), (0, 400), (1, 500), (0, 800), (1, 900), (0, 1200), (1, 1300), (1, 1700)]
          [NotStarted, NotStarted] ex_registry
     = ([Settled ex_running, Settled ex_running],
        ex_registry
          \<lparr>calls :=
             [Gql (DEPLOYMENTS_QUERY ''svc-i1'' ''env-i1''), Gql (PROJECT_QUERY ''p1''),
              Gql (DEPLOYMENTS_QUERY ''svc-i1'' ''env-i1''), HealthProbe ''one.up.railway.app'',
              Gql (PROJECT_QUERY ''p1''), HealthProbe ''one.up.railway.app''],
           statusCache := [''i1'' \<mapsto> \<lparr>data = ex_running, fetchedAt = 1700\<rparr>]\<rparr>)"
    by (simp add: statusStep_def afterQueries_def resolveStatus_def ex_instance_sel
          ex_cp_def ex_probe_def ex_running_def ex_registry_def ex_world_def
          latestDeployment_def discoverDomain_def first_domain_def Let_def
          STATUS_CACHE_TTL_def compositeStatus_def healthy_payload_def truthy_opt_def)
  have hit:
    "getInstanceStatus ex_cp ex_probe 30999 31000 (ex_instance ''i1'' ''one'' ''p1'')
       ex_cached_world = (data ex_cache_entry, ex_cached_world)"
    by (simp add: getInstanceStatus_unfold ex_instance_sel ex_cached_world_def
          ex_cache_entry_def STATUS_CACHE_TTL_def)
  have stale:
    "fst (getInstanceStatus ex_cp ex_probe 31001 32000 (ex_instance ''i1'' ''one'' ''p1'')
            ex_cached_world) = ex_running"
    by (simp add: getInstanceStatus_unfold queryControlPlane_def probeHealth_def callGql_def
          ex_instance_sel ex_cached_world_def ex_cache_entry_def STATUS_CACHE_TTL_def
          ex_cp_def ex_probe_def ex_running_def latestDeployment_def discoverDomain_def
          first_domain_def Let_def compositeStatus_def healthy_payload_def truthy_opt_def)
  have differ: "data ex_cache_entry \<noteq> ex_running"
    by (simp add: ex_cache_entry_def ex_running_def)
  have again:
    "getInstanceStatus ex_cp ex_probe 3000 3500 (ex_instance ''i1'' ''one'' ''p1'')
       (snd (restartHandler ex_cp ex_env ''t1'' ''i1'' ex_after_first))
     = (ex_running,
        ex_after_first
          \<lparr>calls := calls ex_after_first
             @ [Gql (SERVICE_INSTANCE_REDEPLOY ''svc-i1'' ''env-i1''),
                Gql (DEPLOYMENTS_QUERY ''svc-i1'' ''env-i1''), Gql (PROJECT_QUERY ''p1''),
                HealthProbe ''one.up.railway.app''],
           statusCache := [''i1'' \<mapsto> \<lparr>data = ex_running, fetchedAt = 3500\<rparr>]\<rparr>)"
    by (simp add: ex_restart getInstanceStatus_unfold queryControlPlane_def probeHealth_def
          callGql_def ex_instance_sel ex_cp_def ex_probe_def ex_running_def
          latestDeployment_def discoverDomain_def first_domain_def Let_def
          compositeStatus_def healthy_payload_def truthy_opt_def)
  have trace: "calls ex_after_first =
      [Gql (DEPLOYMENTS_QUERY ''svc-i1'' ''env-i1''), Gql (PROJECT_QUERY ''p1''),
       HealthProbe ''one.up.railway.app'']"
    by (simp add: ex_after_first_def)
  show ?thesis
    unfolding loop hit stale ex_first using differ by (simp add: again trace)
qed

text \<open>
  Claim C7, amended, for requests that run one after the other: a status request that finds no
  cache entry younger than 30 seconds (at \<open>t0\<close>) queries the control plane and stores its
  snapshot with the time \<open>t0'\<close> at which it ends.  A request for the same instance that is
  issued at \<open>t1\<close>, after the first has ended and less than 30 seconds after the first was
  issued, while the entry of the first is still in the cache (world \<open>w2\<close>), returns that
  snapshot, sends nothing and leaves the world as it is, whatever the control plane would
  answer by then: the two return the same snapshot and the control plane was queried once.
  A request at \<open>t2\<close>, 30 seconds or more after the entry was stored (world \<open>w2'\<close>, the
  entry still there), sends the deployment query again and stores its own snapshot in the
  entry's place.
\<close>

theorem status_cache_ttl:
  assumes miss: "cache_miss t0 inst w"
    and first: "getInstanceStatus cp probe t0 t0' inst w = (s1, w1)"
    and mono: "t0 \<le> t0'"
    and after: "t0' \<le> t1"
    and soon: "t1 - t0 < 30000"
    and kept: "statusCache w2 (i_id inst) = statusCache w1 (i_id inst)"
    and late: "30000 \<le> t2 - t0'"
    and kept': "statusCache w2' (i_id inst) = statusCache w1 (i_id inst)"
    and third: "getInstanceStatus cp3 probe3 t2 t2' inst w2' = (s3, w3)"
  shows "(\<exists>rest. calls w1 = calls w @ Gql (DEPLOYMENTS_QUERY (serviceId (i_railway inst))
                                              (environmentId (i_railway inst))) # rest)
    \<and> statusCache w1 (i_id inst) = Some \<lparr>data = s1, fetchedAt = t0'\<rparr>
    \<and> getInstanceStatus cp2 probe2 t1 t1' inst w2 = (s1, w2)
    \<and> (\<exists>rest. calls w3 = calls w2' @ Gql (DEPLOYMENTS_QUERY (serviceId (i_railway inst))
                                               (environmentId (i_railway inst))) # rest)
    \<and> statusCache w3 (i_id inst) = Some \<lparr>data = s3, fetchedAt = t2'\<rparr>"
proof -
  have fresh: "(\<exists>rest. calls w'' = calls w' @ Gql (DEPLOYMENTS_QUERY (serviceId (i_railway inst))
                                              (environmentId (i_railway inst))) # rest)
      \<and> statusCache w'' (i_id inst) = Some \<lparr>data = s, fetchedAt = t'\<rparr>"
    if m: "cache_miss t inst w'" and run: "getInstanceStatus c p t t' inst w' = (s, w'')"
    for t t' c p w' s w''
  proof -
    obtain dep domain wq where q: "queryControlPlane c inst w' = ((dep, domain), wq)"
      by (metis prod.exhaust)
    obtain h wp where ph: "probeHealth p dep domain wq = (h, wp)"
      by (metis prod.exhaust)
    have cq: "\<exists>rest. calls wq = calls w' @ Gql (DEPLOYMENTS_QUERY (serviceId (i_railway inst))
                                              (environmentId (i_railway inst))) # rest"
      using queryControlPlane_calls [of c inst w'] q by simp
    have cp: "\<exists>rest. calls wp = calls wq @ rest"
      using probeHealth_calls [of p dep domain wq] ph by simp
    have cw: "calls w'' = calls wp"
      and sc: "statusCache w'' (i_id inst) = Some \<lparr>data = s, fetchedAt = t'\<rparr>"
      using run by (auto simp add: getInstanceStatus_miss [OF m] q ph Let_def)
    show ?thesis
      using cq cp cw sc by auto
  qed
  have one: "\<exists>rest. calls w1 = calls w @ Gql (DEPLOYMENTS_QUERY (serviceId (i_railway inst))
                                              (environmentId (i_railway inst))) # rest"
    and entry: "statusCache w1 (i_id inst) = Some \<lparr>data = s1, fetchedAt = t0'\<rparr>"
    using fresh [OF miss first] by simp_all
  have entry2: "statusCache w2 (i_id inst) = Some \<lparr>data = s1, fetchedAt = t0'\<rparr>"
    using entry kept by simp
  have hit: "getInstanceStatus cp2 probe2 t1 t1' inst w2 = (s1, w2)"
    using getInstanceStatus_hit [OF entry2, of t1 cp2 probe2 t1'] soon mono
    by (simp add: STATUS_CACHE_TTL_def)
  have m3: "cache_miss t2 inst w2'"
    using entry kept' late by (simp add: cache_miss_def STATUS_CACHE_TTL_def)
  show ?thesis
    using one entry hit fresh [OF m3 third] by blast
qed

theorem status_cache_ttl_witness:
  "getInstanceStatus ex_cp ex_probe 0 1200 (ex_instance ''i1'' ''one'' ''p1'') ex_registry
     = (ex_running, ex_after_first)
   \<and> getInstanceStatus down_cp dead_probe 29999 30400 (ex_instance ''i1'' ''one'' ''p1'')
         ex_after_first
     = (ex_running, ex_after_first)
   \<and> fst (getInstanceStatus down_cp dead_probe 31200 31300 (ex_instance ''i1'' ''one'' ''p1'')
            ex_after_first)
     = ex_unknown
   \<and> calls (snd (getInstanceStatus down_cp dead_probe 31200 31300
                   (ex_instance ''i1'' ''one'' ''p1'') ex_after_first))
     = calls ex_after_first @ [Gql (DEPLOYMENTS_QUERY ''svc-i1'' ''env-i1'')]
   \<and> statusCache (snd (getInstanceStatus down_cp dead_probe 31200 31300
                         (ex_instance ''i1'' ''one'' ''p1'') ex_after_first)) ''i1''
     = Some \<lparr>data = ex_unknown, fetchedAt = 31300\<rparr>"
proof -
  have miss: "cache_miss 0 (ex_instance ''i1'' ''one'' ''p1'') ex_registry"
    by (simp add: cache_miss_def ex_world_def ex_registry_def)
  have mono: "(0::int) \<le> 1200"
    and after: "(1200::int) \<le> 29999"
    and soon: "(29999::int) - 0 < 30000"
    and late: "(30000::int) \<le> 31200 - 1200"
    by simp_all
  show ?thesis
    using status_cache_ttl [OF miss ex_first mono after soon refl late refl ex_third,
        where ?cp2.0 = down_cp and ?probe2.0 = dead_probe and ?t1'.0 = 30400]
    by (simp add: ex_first ex_third ex_instance_sel)
qed

section \<open>Tenant deletion\<close>







section \<open>A provisioning run that fails at the variable upsert\<close>

lemma sanitize_nonempty: "sanitize name \<noteq> [] \<Longrightarrow> trim name \<noteq> []"
  by (auto simp add: sanitize_def)

lemma createProject_upsert_fails:
  assumes p: "cp (PROJECT_CREATE (projectLabelOf tenant cleanName)) = Inr (ProjectCreateData pid ((eid, ename) # envs))"
    and s: "cp (SERVICE_CREATE pid (serviceSlugOf cleanName) GITHUB_REPO) = Inr (ServiceCreateData sid)"
    and v: "cp (VOLUME_CREATE pid sid eid ''/data'') = Inr (VolumeCreateData vid)"
    and u: "cp (VARIABLE_COLLECTION_UPSERT pid eid sid
                  (instanceVariables (finalSetupPasswordOf e body) (randomHex32 e)) False) = Inl err"
  shows "createProject cp m e (startProvisioning e tid tenant cleanName body) ([], w) =
     (Inl err,
      steps_1_to_3_log (projectLabelOf tenant cleanName) pid eid ename (serviceSlugOf cleanName) sid vid
        @ [''Setting environment variables...''],
      w\<lparr>calls := calls w @
            [Gql (PROJECT_CREATE (projectLabelOf tenant cleanName)),
             Gql (SERVICE_CREATE pid (serviceSlugOf cleanName) GITHUB_REPO),
             Gql (VOLUME_CREATE pid sid eid ''/data''),
             Gql (VARIABLE_COLLECTION_UPSERT pid eid sid
                    (instanceVariables (finalSetupPasswordOf e body) (randomHex32 e)) False)],
         console := console w @
            map (\<lambda>l. ''[fleet] ['' @ t_slug tenant @ ''/'' @ cleanName @ ''] '' @ l)
              (steps_1_to_3_log (projectLabelOf tenant cleanName) pid eid ename (serviceSlugOf cleanName) sid vid
                 @ [''Setting environment variables...''])\<rparr>)"
  using p s v u
  by (simp add: createProject_def createService_def createVolume_def setVariables_def
        startProvisioning_def finalSetupPasswordOf_def addLog_def callGql_def console_log_def
        steps_1_to_3_log_def Let_def)

lemma createInstanceHandler_upsert_fails:
  assumes stored: "files w STORE_PATH = Some \<lparr>readable = True, content = Json d\<rparr>"
    and cur: "\<not> needs_migration d"
    and found: "map_of (tenants d) tid = Some tenant"
    and name: "b_name body = Some name"
    and clean: "sanitize name \<noteq> []"
    and p: "cp (PROJECT_CREATE (projectLabelOf tenant (sanitize name)))
              = Inr (ProjectCreateData pid ((eid, ename) # envs))"
    and s: "cp (SERVICE_CREATE pid (serviceSlugOf (sanitize name)) GITHUB_REPO)
              = Inr (ServiceCreateData sid)"
    and v: "cp (VOLUME_CREATE pid sid eid ''/data'') = Inr (VolumeCreateData vid)"
    and u: "cp (VARIABLE_COLLECTION_UPSERT pid eid sid
                  (instanceVariables (finalSetupPasswordOf e body) (randomHex32 e)) False)
              = Inl err"
  shows "createInstanceHandler cp m e tid body w =
     (Failure 500 err,
      w\<lparr>calls := calls w @
            [Gql (PROJECT_CREATE (projectLabelOf tenant (sanitize name))),
             Gql (SERVICE_CREATE pid (serviceSlugOf (sanitize name)) GITHUB_REPO),
             Gql (VOLUME_CREATE pid sid eid ''/data''),
             Gql (VARIABLE_COLLECTION_UPSERT pid eid sid
                    (instanceVariables (finalSetupPasswordOf e body) (randomHex32 e)) False)],
         console := console w @
            map (\<lambda>l. ''[fleet] ['' @ t_slug tenant @ ''/'' @ sanitize name @ ''] '' @ l)
              (steps_1_to_3_log (projectLabelOf tenant (sanitize name)) pid eid ename
                 (serviceSlugOf (sanitize name)) sid vid
                 @ [''Setting environment variables...''])
            @ [''[fleet] create error: '' @ err]\<rparr>)"
  using found name clean sanitize_nonempty [OF clean]
  by (simp add: createInstanceHandler_def getTenant_current [OF stored cur] Let_def
        createProject_upsert_fails [OF p s v u] console_log_def)

lemma ex_create_facts:
  "files ex_registry STORE_PATH
     = Some \<lparr>readable = True, content = Json ex_doc2\<rparr>"
  "\<not> needs_migration ex_doc2"
  "map_of (tenants ex_doc2) ''t1'' =
     Some (ex_tenant ''t1'' ''Acme'' ''acme''
             [(''i1'', ex_instance ''i1'' ''one'' ''p1''), (''i2'', ex_instance ''i2'' ''two'' ''p2'')])"
  "b_name (ex_body ''Blue Sky'') = Some ''Blue Sky''"
  by (simp_all add: ex_world_def ex_registry_def needs_migration_def ex_doc2_def ex_body_def)

lemma ex_create_name:
  "sanitize ''Blue Sky'' = ''Blue Sky''"
  "serviceSlugOf ''Blue Sky'' = ''cortexai-blue-sky''"
  by code_simp+

lemma ex_create_answers:
  "ex_cp (PROJECT_CREATE label) = Inr (ProjectCreateData ''proj-9'' [(''env-9'', ''production'')])"
  "ex_cp (SERVICE_CREATE pid slug repo) = Inr (ServiceCreateData ''svc-9'')"
  "ex_cp (VOLUME_CREATE pid sid eid mnt) = Inr (VolumeCreateData ''vol-9'')"
  "ex_cp (VARIABLE_COLLECTION_UPSERT pid eid sid vars repl)
     = Inl ''Error: Railway API error: variables rejected''"
  by (simp_all add: ex_cp_def)

text \<open>
  Claim C3, as stated: when the variable upsert fails, \<open>createInstance\<close> returns the error
  together with the step log collected so far, which holds exactly the lines of steps 1 to
  3, and the registry is unchanged.  In the example run the answer is the bare error: it
  has no \<open>log\<close> member.  The array the handler had filled by then is not returned, and it
  holds one line more than the lines of steps 1 to 3, the line that announces the upsert.
\<close>

theorem create_instance_error_reply_has_no_log:
  "fst (createInstanceHandler ex_cp ex_mesh ex_env ''t1'' (ex_body ''Blue Sky'')
          ex_registry)
     = Failure 500 ''Error: Railway API error: variables rejected''
   \<and> reply_log (fst (createInstanceHandler ex_cp ex_mesh ex_env ''t1'' (ex_body ''Blue Sky'')
          ex_registry)) = None
   \<and> fst (snd (createProject ex_cp ex_mesh ex_env
          (startProvisioning ex_env ''t1''
             (ex_tenant ''t1'' ''Acme'' ''acme''
                [(''i1'', ex_instance ''i1'' ''one'' ''p1''), (''i2'', ex_instance ''i2'' ''two'' ''p2'')])
             ''Blue Sky'' (ex_body ''Blue Sky''))
          ([], ex_registry)))
     = steps_1_to_3_log ''CortexAI - acme - Blue Sky'' ''proj-9'' ''env-9'' ''production''
         ''cortexai-blue-sky'' ''svc-9'' ''vol-9''
       @ [''Setting environment variables...'']
   \<and> fst (snd (createProject ex_cp ex_mesh ex_env
          (startProvisioning ex_env ''t1''
             (ex_tenant ''t1'' ''Acme'' ''acme''
                [(''i1'', ex_instance ''i1'' ''one'' ''p1''), (''i2'', ex_instance ''i2'' ''two'' ''p2'')])
             ''Blue Sky'' (ex_body ''Blue Sky''))
          ([], ex_registry)))
     \<noteq> steps_1_to_3_log ''CortexAI - acme - Blue Sky'' ''proj-9'' ''env-9'' ''production''
         ''cortexai-blue-sky'' ''svc-9'' ''vol-9''"
proof -
  have clean: "sanitize ''Blue Sky'' \<noteq> []"
    by (simp add: ex_create_name)
  note run = createInstanceHandler_upsert_fails [OF ex_create_facts clean ex_create_answers,
      where e = ex_env and m = ex_mesh]
  note body = createProject_upsert_fails [OF ex_create_answers,
      where e = ex_env and m = ex_mesh and body = "ex_body ''Blue Sky''" and tid = "''t1''"
        and cleanName = "''Blue Sky''"
        and tenant = "ex_tenant ''t1'' ''Acme'' ''acme''
                [(''i1'', ex_instance ''i1'' ''one'' ''p1''), (''i2'', ex_instance ''i2'' ''two'' ''p2'')]"]
  have label:
    "projectLabelOf
       (ex_tenant ''t1'' ''Acme'' ''acme''
          [(''i1'', ex_instance ''i1'' ''one'' ''p1''), (''i2'', ex_instance ''i2'' ''two'' ''p2'')])
       ''Blue Sky'' = ''CortexAI - acme - Blue Sky''"
    by (simp add: projectLabelOf_def ex_tenant_def)
  show ?thesis
    by (simp add: run body reply_log_def ex_create_name label)
qed

text \<open>
  Claim C3, amended: when the variable upsert fails (the three steps before it having
  succeeded, for a tenant of a current registry and a name that survives sanitising), the
  handler answers 500 with the error text alone, without a step log; the log array it
  drops held the lines of steps 1 to 3 followed by the line announcing the upsert; the four
  remote calls up to the upsert were made and nothing was rolled back; and no file was
  touched, so the registry is unchanged and holds no new instance.
\<close>

theorem create_instance_upsert_failure:
  assumes stored: "files w STORE_PATH = Some \<lparr>readable = True, content = Json d\<rparr>"
    and cur: "\<not> needs_migration d"
    and found: "map_of (tenants d) tid = Some tenant"
    and name: "b_name body = Some name"
    and clean: "sanitize name \<noteq> []"
    and p: "cp (PROJECT_CREATE (projectLabelOf tenant (sanitize name)))
              = Inr (ProjectCreateData pid ((eid, ename) # envs))"
    and s: "cp (SERVICE_CREATE pid (serviceSlugOf (sanitize name)) GITHUB_REPO)
              = Inr (ServiceCreateData sid)"
    and v: "cp (VOLUME_CREATE pid sid eid ''/data'') = Inr (VolumeCreateData vid)"
    and u: "cp (VARIABLE_COLLECTION_UPSERT pid eid sid
                  (instanceVariables (finalSetupPasswordOf e body) (randomHex32 e)) False)
              = Inl err"
  shows "fst (createInstanceHandler cp m e tid body w) = Failure 500 err
   \<and> reply_log (fst (createInstanceHandler cp m e tid body w)) = None
   \<and> fst (snd (createProject cp m e (startProvisioning e tid tenant (sanitize name) body)
                  ([], w)))
       = steps_1_to_3_log (projectLabelOf tenant (sanitize name)) pid eid ename
           (serviceSlugOf (sanitize name)) sid vid
         @ [''Setting environment variables...'']
   \<and> calls (snd (createInstanceHandler cp m e tid body w))
       = calls w @
            [Gql (PROJECT_CREATE (projectLabelOf tenant (sanitize name))),
             Gql (SERVICE_CREATE pid (serviceSlugOf (sanitize name)) GITHUB_REPO),
             Gql (VOLUME_CREATE pid sid eid ''/data''),
             Gql (VARIABLE_COLLECTION_UPSERT pid eid sid
                    (instanceVariables (finalSetupPasswordOf e body) (randomHex32 e)) False)]
   \<and> files (snd (createInstanceHandler cp m e tid body w)) = files w
   \<and> fs_ops (snd (createInstanceHandler cp m e tid body w)) = fs_ops w
   \<and> stored_doc (snd (createInstanceHandler cp m e tid body w)) = Some d"
proof -
  note run = createInstanceHandler_upsert_fails [OF stored cur found name clean p s v u, of m]
  note body = createProject_upsert_fails [OF p s v u, of m tid w]
  have sd: "stored_doc (snd (createInstanceHandler cp m e tid body w)) = Some d"
    using stored by (simp add: run stored_doc_def)
  show ?thesis
    using sd by (simp add: run body reply_log_def)
qed

theorem create_instance_upsert_failure_witness:
  "fst (createInstanceHandler ex_cp ex_mesh ex_env ''t1'' (ex_body ''Blue Sky'')
          ex_registry)
     = Failure 500 ''Error: Railway API error: variables rejected''
   \<and> calls (snd (createInstanceHandler ex_cp ex_mesh ex_env ''t1'' (ex_body ''Blue Sky'')
          ex_registry))
     = [Gql (PROJECT_CREATE ''CortexAI - acme - Blue Sky''),
        Gql (SERVICE_CREATE ''proj-9'' ''cortexai-blue-sky'' ''TukaTek/cortexai-assistant''),
        Gql (VOLUME_CREATE ''proj-9'' ''svc-9'' ''env-9'' ''/data''),
        Gql (VARIABLE_COLLECTION_UPSERT ''proj-9'' ''env-9'' ''svc-9''
               [(''SETUP_PASSWORD'', ''00ff''),
                (''OPENCLAW_STATE_DIR'', ''/data/.openclaw''),
                (''OPENCLAW_WORKSPACE_DIR'', ''/data/workspace''),
                (''OPENCLAW_GATEWAY_TOKEN'', ''ff00''), (''PORT'', ''8080''),
                (''OPENCLAW_PUBLIC_PORT'', ''8080'')] False)]
   \<and> stored_doc (snd (createInstanceHandler ex_cp ex_mesh ex_env ''t1'' (ex_body ''Blue Sky'')
          ex_registry)) = Some ex_doc2"
proof -
  have clean: "sanitize ''Blue Sky'' \<noteq> []"
    by (simp add: ex_create_name)
  show ?thesis
    using create_instance_upsert_failure [OF ex_create_facts clean ex_create_answers, where e = ex_env and m = ex_mesh]
    by (simp add: ex_create_name projectLabelOf_def ex_tenant_def ex_world_def ex_registry_def instanceVariables_def
          finalSetupPasswordOf_def ex_body_def ex_env_def GITHUB_REPO_def)
qed

end
